theory Spec2Isabelle
  imports Main "HOL-Library.Sublist" "HOL-Library.Product_Lexorder"
begin

section \<open>URL utilities\<close>

text \<open>
  JavaScript strings are modelled as \<^typ>\<open>string\<close>.  The source:
  \<^verbatim>\<open>
  function startsWith(input, str) {
    return (
      input.slice(0, str.length) === str &&
      (input.length === str.length || input[str.length] === '/' || input[str.length] === '?')
    );
  }
  \<close>
  \<open>input.slice(0, n)\<close> is \<open>take n input\<close>.  An index at or beyond the end of a
  JavaScript string reads \<open>undefined\<close>, which is different from every character, so
  the two character tests carry the bound explicitly.
\<close>

definition startsWith :: "string \<Rightarrow> string \<Rightarrow> bool" where
  "startsWith input str \<longleftrightarrow>
     take (length str) input = str \<and>
     (length input = length str \<or>
      (length str < length input \<and> input ! length str = CHR ''/'') \<or>
      (length str < length input \<and> input ! length str = CHR ''?''))"

text \<open>
  \<open>setHttp\<close> prepends \<open>http://\<close> unless the link already begins with
  \<open>http://\<close> or \<open>https://\<close> (the regular expression \<open>^http[s]?\:\/\/\<close>).
\<close>

definition setHttp :: "string \<Rightarrow> string" where
  "setHttp link =
     (if prefix ''http://'' link \<or> prefix ''https://'' link then link
      else ''http://'' @ link)"

subsection \<open>POSIX path join\<close>

text \<open>
  \<open>path.posix.join\<close> belongs to the Node.js runtime, not to this program.  It is
  modelled after the runtime's documented algorithm: the non-empty arguments are glued
  with a slash and the result is normalised, which drops empty and \<open>.\<close> segments,
  resolves \<open>..\<close> against the preceding segment, and keeps a leading and a trailing
  slash.
\<close>

fun splitOn :: "char \<Rightarrow> string \<Rightarrow> string list" where
  "splitOn c [] = [[]]"
| "splitOn c (x # xs) =
     (if x = c then [] # splitOn c xs
      else (case splitOn c xs of
              [] \<Rightarrow> [[x]]
            | seg # segs \<Rightarrow> (x # seg) # segs))"

fun joinWith :: "string \<Rightarrow> string list \<Rightarrow> string" where
  "joinWith sep [] = []"
| "joinWith sep [x] = x"
| "joinWith sep (x # y # ys) = x @ sep @ joinWith sep (y # ys)"

text \<open>The stack holds the segments kept so far, the most recent first.\<close>

fun normalizeString :: "bool \<Rightarrow> string list \<Rightarrow> string list \<Rightarrow> string list" where
  "normalizeString allowAboveRoot stack [] = rev stack"
| "normalizeString allowAboveRoot stack (seg # segs) =
     (if seg = [] \<or> seg = ''.'' then normalizeString allowAboveRoot stack segs
      else if seg = ''..'' then
        (case stack of
           lastSeg # below \<Rightarrow>
             if lastSeg = ''..''
             then normalizeString allowAboveRoot
                    (if allowAboveRoot then ''..'' # stack else stack) segs
             else normalizeString allowAboveRoot below segs
         | [] \<Rightarrow>
             normalizeString allowAboveRoot
               (if allowAboveRoot then [''..''] else []) segs)
      else normalizeString allowAboveRoot (seg # stack) segs)"

definition posix_normalize :: "string \<Rightarrow> string" where
  "posix_normalize p =
     (if p = [] then ''.''
      else
        let isAbsolute = (hd p = CHR ''/'');
            trailingSeparator = (last p = CHR ''/'');
            body = joinWith ''/'' (normalizeString (\<not> isAbsolute) [] (splitOn CHR ''/'' p))
        in if body = [] then
             (if isAbsolute then ''/'' else if trailingSeparator then ''./'' else ''.'')
           else
             (if isAbsolute then ''/'' else []) @ body @
             (if trailingSeparator then ''/'' else []))"

definition posix_join :: "string list \<Rightarrow> string" where
  "posix_join args =
     (case filter (\<lambda>a. a \<noteq> []) args of
        [] \<Rightarrow> ''.''
      | parts \<Rightarrow> posix_normalize (joinWith ''/'' parts))"

section \<open>Data model\<close>

text \<open>
  A URL as \<open>url.parse\<close> produces it.  Only the fields the proxy reads are kept.  The
  empty string stands for an absent (\<open>null\<close>) port or pathname: the code only ever
  tests these two for truthiness.
\<close>

record parsed_url =
  protocol :: string
  hostname :: string
  port :: string
  pathname :: string
  host :: string
  href :: string

text \<open>A target is a parsed URL with the two flags \<open>buildTarget\<close> attaches.\<close>

record target = parsed_url +
  sslRedirect :: bool
  useTargetHostHeader :: bool

text \<open>
  \<open>register\<close>, \<open>unregister\<close> and the resolvers accept a URL either as a string or
  as an already parsed object.
\<close>

datatype url_input = UrlString string | UrlObject parsed_url

datatype error =
    AssertionError string
  | TypeError string
  | HookError string
  | HeadersSentError string

record letsencrypt_opts =
  email :: string
  production :: bool

record ssl_opts =
  key :: "string option"
  cert :: "string option"
  ca :: "string option"
  letsencrypt :: "letsencrypt_opts option"
  redirect :: "bool option"

text \<open>
  The request and response objects, reduced to what the proxy touches.  \<open>url\<close> is
  \<open>req.url\<close>, \<open>saved_url\<close> is \<open>req._url\<close>, \<open>host_override\<close> is \<open>req.host\<close>.
  A raw socket handed over in place of a response (WebSocket paths) has no
  \<open>writeHead\<close>.
\<close>

record request =
  url :: string
  saved_url :: "string option"
  host_override :: "string option"
  headers :: "(string \<times> string) list"

record response =
  hasWriteHead :: bool
  statusCode :: "nat option"
  headersSent :: bool
  location :: "string option"
  written :: string
  ended :: bool

text \<open>
  Values that can stand where a target is expected once a hook has replied:
  \<open>false\<close>, \<open>null\<close>, a string, or a target object.  \<open>undefined\<close> is \<open>None\<close> of
  the option type around it.
\<close>

datatype jsvalue = JFalse | JNull | JString string | JTarget target

text \<open>
  An \<open>onRequest\<close> hook gets the request, the response (absent on a WebSocket
  upgrade) and the selected target.  It throws, or returns a value together with the
  request as it leaves it and what it did to the response.
\<close>

type_synonym onRequest_hook =
  "request \<Rightarrow> response option \<Rightarrow> target
     \<Rightarrow> error + (jsvalue option \<times> request \<times> (response \<Rightarrow> response))"

type_synonym onResponse_hook =
  "request \<Rightarrow> response \<Rightarrow> jsvalue option \<Rightarrow> response"

type_synonym onError_hook =
  "error \<Rightarrow> request \<Rightarrow> response \<Rightarrow> jsvalue option \<Rightarrow> response"

record route_opts =
  ssl :: "ssl_opts option"
  useTargetHostHeaderOpt :: "bool option"
  changeOrigin :: "bool option"
  httpProxy :: "(string \<times> string) list"
  onRequest :: "onRequest_hook option"
  onResponse :: "onResponse_hook option"
  onError :: "onError_hook option"

text \<open>\<open>Object.assign({}, undefined)\<close>: an options object with nothing set.\<close>

definition no_opts :: route_opts where
  "no_opts = \<lparr> ssl = None, useTargetHostHeaderOpt = None, changeOrigin = None,
               httpProxy = [], onRequest = None, onResponse = None, onError = None \<rparr>"

text \<open>
  A proxy handle is either the instance's default forwarder or one kept in the
  \<open>_proxies\<close> cache under its key.
\<close>

datatype proxy_handle = DefaultProxy | KeyedProxy string

text \<open>
  A route.  Routes made by \<open>register\<close> carry \<open>opts\<close> and \<open>proxy\<close>; the route objects
  \<open>buildRoute\<close> makes from a resolver's reply carry neither and are marked
  \<open>isResolved\<close>.  The round-robin index \<open>rr\<close> is a JavaScript number: \<open>None\<close> is
  \<open>NaN\<close>, which \<open>(j + 1) % 0\<close> yields.
\<close>

record route =
  path :: string
  rr :: "nat option"
  urls :: "target list"
  opts :: "route_opts option"
  proxy :: "proxy_handle option"
  isResolved :: bool

text \<open>
  What a \<open>ReverseProxy\<close> instance holds.  \<open>clusterMaster\<close> is the test
  \<open>this.opts.cluster && cluster.isMaster\<close>.  \<open>certs\<close> is \<open>None\<close> when the
  instance was built without \<open>ssl\<close>; an entry \<open>Some None\<close> is a hostname stored
  with the value \<open>undefined\<close> (use the listener's default certificate).
  \<open>httpsServers\<close> is the number of HTTPS listeners, \<open>letsencryptPath\<close> the test
  \<open>this.opts.letsencrypt && this.opts.letsencrypt.path\<close>, \<open>proxies\<close> the keys of the
  \<open>_proxies\<close> cache, \<open>resolvers\<close> the resolver functions by identity, and
  \<open>redirectPort\<close>, \<open>sslPort\<close> the two fields of the constructor's \<open>ssl\<close> option
  that the HTTPS redirect reads.  \<open>acmeRequests\<close> and \<open>clearedTimeouts\<close> record the calls
  to \<open>updateCertificates\<close> and \<open>safe.clearTimeout\<close>.
\<close>

record cert_entry =
  credentials :: "string option \<times> string option \<times> string option"
  renewalTimeout :: "nat option"

record reverse_proxy =
  clusterMaster :: bool
  routing :: "string \<rightharpoonup> route list"
  certs :: "(string \<rightharpoonup> cert_entry option) option"
  httpsServers :: nat
  letsencryptPath :: bool
  letsencryptHost :: "string option"
  proxies :: "string list"
  resolvers :: "nat list"
  redirectPort :: "string option"
  sslPort :: "string option"
  acmeRequests :: "(string \<times> letsencrypt_opts) list"
  clearedTimeouts :: "nat list"

section \<open>Registration\<close>

text \<open>
  \<open>prepareUrl\<close> clones a parsed URL and parses a string after \<open>setHttp\<close>.  The
  validity test and the parser come from libraries; they are the parameter
  \<open>parseUrl\<close>, which answers \<open>None\<close> where the assertion fails.
\<close>

definition prepareUrl :: "(string \<Rightarrow> parsed_url option) \<Rightarrow> url_input \<Rightarrow> error + parsed_url" where
  "prepareUrl parseUrl u =
     (case u of
        UrlObject p \<Rightarrow> Inr p
      | UrlString s \<Rightarrow>
          (case parseUrl (setHttp s) of
             None \<Rightarrow> Inl (AssertionError ''uri is not a valid http uri'')
           | Some p \<Rightarrow> Inr p))"

definition buildTarget ::
  "(string \<Rightarrow> parsed_url option) \<Rightarrow> url_input \<Rightarrow> route_opts option \<Rightarrow> error + target" where
  "buildTarget parseUrl t opts0 =
     (let opts1 = (case opts0 of None \<Rightarrow> no_opts | Some given \<Rightarrow> given) in
      case prepareUrl parseUrl t of
        Inl e \<Rightarrow> Inl e
      | Inr u \<Rightarrow>
          Inr \<lparr> protocol = protocol u, hostname = hostname u, port = port u,
                pathname = pathname u, host = host u, href = href u,
                sslRedirect = (case ssl opts1 of None \<Rightarrow> False | Some s \<Rightarrow> redirect s \<noteq> Some False),
                useTargetHostHeader = (useTargetHostHeaderOpt opts1 = Some True) \<rparr>)"

text \<open>JavaScript truthiness of a URL argument: only the empty string is falsy.\<close>

definition truthy :: "url_input \<Rightarrow> bool" where
  "truthy u \<longleftrightarrow> u \<noteq> UrlString []"

text \<open>\<open>src.pathname || '/'\<close>\<close>

definition pathnameOrRoot :: "parsed_url \<Rightarrow> string" where
  "pathnameOrRoot src = (if pathname src = [] then ''/'' else pathname src)"

text \<open>
  The index of the first element that satisfies a test, or the length of the list when
  there is none: the loop of \<open>unregister\<close>, and the position \<open>_.find\<close> reports.
\<close>

fun findIndex :: "('a \<Rightarrow> bool) \<Rightarrow> 'a list \<Rightarrow> nat" where
  "findIndex P [] = 0"
| "findIndex P (x # xs) = (if P x then 0 else Suc (findIndex P xs))"

definition proxyKey :: "target \<Rightarrow> string" where
  "proxyKey t =
     (let mapper = (\<lambda>x k. if x = [] then [] else k @ '','' @ x) in
      joinWith ''/'' [mapper (protocol t) ''protocol'', mapper (hostname t) ''hostname'',
                      mapper (port t) ''port''])"

definition getProxy :: "reverse_proxy \<Rightarrow> parsed_url \<Rightarrow> target \<Rightarrow> route_opts option \<Rightarrow> proxy_handle \<times> string list" where
  "getProxy rp src t opts0 =
     (let given = (case opts0 of None \<Rightarrow> None | Some o1 \<Rightarrow> changeOrigin o1);
          changeOrigin1 =
            (if given = None \<and> hostname src \<noteq> hostname t \<and> protocol t = ''https:''
             then Some True else given)
      in if changeOrigin1 \<noteq> Some True then (DefaultProxy, proxies rp)
         else (KeyedProxy (proxyKey t),
               if proxyKey t \<in> set (proxies rp) then proxies rp else proxies rp @ [proxyKey t]))"

text \<open>
  The certificate part of \<open>register\<close>.  The second component tells whether
  registration goes on: it is \<open>False\<close> on the early \<open>return\<close> taken when
  Let's Encrypt is asked for and no certificate path is configured.
\<close>

definition registerCerts ::
  "reverse_proxy \<Rightarrow> parsed_url \<Rightarrow> route_opts option \<Rightarrow> error + (reverse_proxy \<times> bool)" where
  "registerCerts rp src opts0 =
     (case opts0 of
        None \<Rightarrow> Inr (rp, True)
      | Some given \<Rightarrow>
          (case ssl given of
             None \<Rightarrow> Inr (rp, True)
           | Some s \<Rightarrow>
               if \<not> 0 < httpsServers rp
               then Inl (AssertionError ''Cannot register https routes without defining a ssl port'')
               else
                 (case certs rp of
                    None \<Rightarrow> Inl (TypeError ''Cannot read property of undefined'')
                  | Some cs \<Rightarrow>
                      (case cs (hostname src) of
                         Some (Some entry) \<Rightarrow> Inr (rp, True)
                       | _ \<Rightarrow>
                           if key s \<noteq> None \<or> cert s \<noteq> None \<or> ca s \<noteq> None then
                             Inr (rp\<lparr>certs := Some (cs(hostname src \<mapsto>
                                        Some \<lparr>credentials = (key s, cert s, ca s),
                                              renewalTimeout = None\<rparr>))\<rparr>, True)
                           else
                             (case letsencrypt s of
                                Some le \<Rightarrow>
                                  if \<not> letsencryptPath rp then Inr (rp, False)
                                  else Inr (rp\<lparr>acmeRequests := acmeRequests rp @ [(hostname src, le)]\<rparr>, True)
                              | None \<Rightarrow>
                                  Inr (rp\<lparr>certs := Some (cs(hostname src \<mapsto> None))\<rparr>, True))))))"

text \<open>
  \<open>_.sortBy(host, r => -r.path.length)\<close> is a stable ascending sort on the key.
\<close>

definition sortRoutes :: "route list \<Rightarrow> route list" where
  "sortRoutes host1 = sort_key (\<lambda>r. - int (length (path r))) host1"

text \<open>
  \<open>register\<close>, called with positional arguments (the two object call shapes only
  rename arguments).  The result is \<open>Inl\<close> when the call throws, else the instance
  after the call and whether the call returned \<open>this\<close> (\<open>True\<close>) or took the early
  \<open>return\<close> with \<open>undefined\<close> (\<open>False\<close>).  The source pushes the target into the
  route object after sorting; the route is one object wherever the sort put it, and
  the sort key does not read \<open>urls\<close>, so the model stores the target before sorting.
\<close>

definition register ::
  "(string \<Rightarrow> parsed_url option) \<Rightarrow> reverse_proxy \<Rightarrow> url_input \<Rightarrow> url_input \<Rightarrow> route_opts option
     \<Rightarrow> error + (reverse_proxy \<times> bool)" where
  "register parseUrl rp src0 target0 opts0 =
     (if clusterMaster rp then Inr (rp, True)
      else if \<not> (truthy src0 \<and> truthy target0)
      then Inl (AssertionError ''Cannot register a new route with unspecified src or target'')
      else
        case prepareUrl parseUrl src0 of
          Inl e \<Rightarrow> Inl e
        | Inr src \<Rightarrow>
            (case buildTarget parseUrl target0 opts0 of
               Inl e \<Rightarrow> Inl e
             | Inr t \<Rightarrow>
                 (case registerCerts rp src opts0 of
                    Inl e \<Rightarrow> Inl e
                  | Inr (rp1, False) \<Rightarrow> Inr (rp1, False)
                  | Inr (rp1, True) \<Rightarrow>
                      let host0 = (case routing rp1 (hostname src) of None \<Rightarrow> [] | Some b \<Rightarrow> b);
                          pathname1 = pathnameOrRoot src;
                          i = findIndex (\<lambda>r. path r = pathname1) host0
                      in if i < length host0 then
                           Inr (rp1\<lparr>routing := (routing rp1)(hostname src \<mapsto>
                                  host0[i := (host0 ! i)\<lparr>urls := urls (host0 ! i) @ [t]\<rparr>])\<rparr>, True)
                         else
                           let (handle, proxies1) = getProxy rp1 src t opts0;
                               route1 = \<lparr> path = pathname1, rr = Some 0, urls = [t],
                                          opts = Some (case opts0 of None \<Rightarrow> no_opts | Some given \<Rightarrow> given),
                                          proxy = Some handle, isResolved = False \<rparr>
                           in Inr (rp1\<lparr>routing := (routing rp1)(hostname src \<mapsto>
                                         sortRoutes (host0 @ [route1])),
                                       proxies := proxies1\<rparr>, True))))"

text \<open>
  \<open>unregister\<close>.  A missing or falsy \<open>target\<close> clears every URL of the route;
  otherwise the URLs with the target's \<open>href\<close> are removed.  A route left without
  URLs is spliced out of its bucket, and the certificate entry of the hostname goes
  with it.
\<close>

definition dropCerts :: "reverse_proxy \<Rightarrow> string \<Rightarrow> reverse_proxy" where
  "dropCerts rp h =
     (case certs rp of
        None \<Rightarrow> rp
      | Some cs \<Rightarrow>
          rp\<lparr>certs := Some (cs(h := None)),
             clearedTimeouts :=
               (case cs h of
                  Some (Some entry) \<Rightarrow>
                    (case renewalTimeout entry of
                       Some timer \<Rightarrow> clearedTimeouts rp @ [timer]
                     | None \<Rightarrow> clearedTimeouts rp)
                | _ \<Rightarrow> clearedTimeouts rp)\<rparr>)"

definition unregister ::
  "(string \<Rightarrow> parsed_url option) \<Rightarrow> reverse_proxy \<Rightarrow> url_input \<Rightarrow> url_input option
     \<Rightarrow> error + reverse_proxy" where
  "unregister parseUrl rp src0 target0 =
     (if clusterMaster rp then Inr rp
      else if \<not> truthy src0 then Inr rp
      else
        case prepareUrl parseUrl src0 of
          Inl e \<Rightarrow> Inl e
        | Inr src \<Rightarrow>
            let routes = (case routing rp (hostname src) of None \<Rightarrow> [] | Some b \<Rightarrow> b);
                pathname1 = pathnameOrRoot src;
                i = findIndex (\<lambda>r. path r = pathname1) routes
            in if i < length routes then
                 (case (case target0 of
                          None \<Rightarrow> Inr []
                        | Some t0 \<Rightarrow>
                            if truthy t0 then
                              (case prepareUrl parseUrl t0 of
                                 Inl e \<Rightarrow> Inl e
                               | Inr t \<Rightarrow> Inr (filter (\<lambda>u. href u \<noteq> href t) (urls (routes ! i))))
                            else Inr []) of
                    Inl e \<Rightarrow> Inl e
                  | Inr urls1 \<Rightarrow>
                      if urls1 = [] then
                        Inr (dropCerts
                               (rp\<lparr>routing := (routing rp)(hostname src \<mapsto>
                                      take i routes @ drop (Suc i) routes)\<rparr>)
                               (hostname src))
                      else
                        Inr (rp\<lparr>routing := (routing rp)(hostname src \<mapsto>
                                   routes[i := (routes ! i)\<lparr>urls := urls1\<rparr>])\<rparr>))
               else Inr rp)"

section \<open>Resolver pipeline\<close>

text \<open>
  A resolver is a function object.  \<open>_.uniq\<close> and \<open>removeResolver\<close> compare by
  identity and \<open>addResolver\<close> writes the \<open>priority\<close> property into the object, so
  the model names each function by a number and keeps the \<open>priority\<close> properties in a
  store beside the instance.  Number \<open>0\<close> is \<open>_defaultResolver\<close>, whose priority
  the module sets to \<open>0\<close>.
\<close>

type_synonym priorities = "nat \<rightharpoonup> int"

datatype resolver_arg = Fn nat | NotAFunction

text \<open>
  The \<open>forEach\<close> of \<open>addResolver\<close>: an argument that is not a function stops the
  loop with an assertion error, after the earlier ones were pushed.
\<close>

fun addResolverLoop ::
  "priorities \<Rightarrow> nat list \<Rightarrow> resolver_arg list \<Rightarrow> priorities \<times> nat list \<times> error option" where
  "addResolverLoop prio rs [] = (prio, rs, None)"
| "addResolverLoop prio rs (NotAFunction # rest) =
     (prio, rs, Some (AssertionError ''Resolver must be an invokable function.''))"
| "addResolverLoop prio rs (Fn f # rest) =
     addResolverLoop (if prio f = None then prio(f \<mapsto> 0) else prio) (rs @ [f]) rest"

text \<open>\<open>_.uniq\<close> keeps the first occurrence of every element.\<close>

fun uniqInto :: "'a list \<Rightarrow> 'a list \<Rightarrow> 'a list" where
  "uniqInto seen [] = seen"
| "uniqInto seen (x # xs) = uniqInto (if x \<in> set seen then seen else seen @ [x]) xs"

definition uniq :: "'a list \<Rightarrow> 'a list" where
  "uniq xs = uniqInto [] xs"

text \<open>
  The key of \<open>_.sortBy(..., ['priority'])\<close>: ascending by priority, an element
  without the property after all others.  The sort is stable.
\<close>

definition priorityKey :: "priorities \<Rightarrow> nat \<Rightarrow> bool \<times> int" where
  "priorityKey prio f = (case prio f of None \<Rightarrow> (True, 0) | Some p \<Rightarrow> (False, p))"

definition addResolver ::
  "priorities \<Rightarrow> reverse_proxy \<Rightarrow> resolver_arg list \<Rightarrow> priorities \<times> reverse_proxy \<times> error option" where
  "addResolver prio rp resolver =
     (if clusterMaster rp then (prio, rp, None)
      else
        case addResolverLoop prio (resolvers rp) resolver of
          (prio1, rs1, Some e) \<Rightarrow> (prio1, rp\<lparr>resolvers := rs1\<rparr>, Some e)
        | (prio1, rs1, None) \<Rightarrow>
            (prio1, rp\<lparr>resolvers := rev (sort_key (priorityKey prio1) (uniq rs1))\<rparr>, None))"

definition removeResolver :: "reverse_proxy \<Rightarrow> nat \<Rightarrow> reverse_proxy" where
  "removeResolver rp resolver =
     (if clusterMaster rp then rp
      else rp\<lparr>resolvers := filter (\<lambda>resolverFn. resolverFn \<noteq> resolver) (resolvers rp)\<rparr>)"

section \<open>Resolution\<close>

text \<open>
  Module-level state, shared by every instance of the process: the not-found responder
  and the route cache of \<open>buildRoute\<close> (an LRU cache of 5000 entries; eviction is left
  out).
\<close>

type_synonym responder = "request \<Rightarrow> response \<Rightarrow> response"

record module_state =
  respondNotFound :: responder
  routeCache :: "string \<rightharpoonup> route"

text \<open>
  What a resolver hands back: nothing (a falsy value), a value that is neither string
  nor object, a target string, a route-shaped object (own \<open>urls\<close> and \<open>path\<close>), or a
  descriptor object, whose \<open>url\<close> is absent, or one URL or an array of them (a single
  URL is the one-element list).  A resolver may also reject.
\<close>

record descriptor =
  d_url :: "url_input list option"
  d_path :: string
  d_opts :: "route_opts option"

datatype resolver_result =
    RFalsy
  | ROther
  | RString string
  | RRoute route
  | RDescriptor descriptor

datatype resolver_reply = Rejected | Reply resolver_result

text \<open>
  Where a route object lives, so that the change \<open>_getRouteTarget\<close> makes to its
  \<open>rr\<close> can be stored back: in a bucket of the routing table, in the route cache, or
  in an object of the resolver's own.
\<close>

datatype origin = FromTable string nat | FromCache string | Detached

definition defaultResolver :: "reverse_proxy \<Rightarrow> string option \<Rightarrow> string \<Rightarrow> (origin \<times> route) option" where
  "defaultResolver rp host0 url0 =
     (case host0 of
        None \<Rightarrow> None
      | Some h \<Rightarrow>
          if h = [] then None
          else
            let url1 = (if url0 = [] then ''/'' else url0) in
            case routing rp h of
              None \<Rightarrow> None
            | Some routes \<Rightarrow>
                let i = findIndex (\<lambda>r. path r = ''/'' \<or> startsWith url1 (path r)) routes
                in if i < length routes then Some (FromTable h i, routes ! i) else None)"

text \<open>\<open>buildTarget\<close> over the URLs of a descriptor, stopping at the first that throws.\<close>

fun buildTargets ::
  "(string \<Rightarrow> parsed_url option) \<Rightarrow> url_input list \<Rightarrow> route_opts option \<Rightarrow> error + target list" where
  "buildTargets parseUrl [] opts0 = Inr []"
| "buildTargets parseUrl (u # us) opts0 =
     (case buildTarget parseUrl u opts0 of
        Inl e \<Rightarrow> Inl e
      | Inr t \<Rightarrow>
          (case buildTargets parseUrl us opts0 of
             Inl e \<Rightarrow> Inl e
           | Inr ts \<Rightarrow> Inr (t # ts)))"

text \<open>
  \<open>buildRoute\<close>.  \<open>hashOf\<close> stands for the library function \<open>hash\<close>.  The
  result is the route with its origin, or \<open>None\<close> for \<open>null\<close>, and the cache after
  the call.
\<close>

definition buildRoute ::
  "(string \<Rightarrow> parsed_url option) \<Rightarrow> (descriptor \<Rightarrow> string) \<Rightarrow> (string \<rightharpoonup> route) \<Rightarrow> resolver_result
     \<Rightarrow> error + ((origin \<times> route) option \<times> (string \<rightharpoonup> route))" where
  "buildRoute parseUrl hashOf cache reply =
     (case reply of
        RFalsy \<Rightarrow> Inr (None, cache)
      | ROther \<Rightarrow> Inr (None, cache)
      | RRoute r \<Rightarrow> Inr (Some (Detached, r), cache)
      | RString s \<Rightarrow>
          (case cache s of
             Some entry \<Rightarrow> Inr (Some (FromCache s, entry), cache)
           | None \<Rightarrow>
               (case buildTarget parseUrl (UrlString s) None of
                  Inl e \<Rightarrow> Inl e
                | Inr t \<Rightarrow>
                    let routeObject = \<lparr> path = ''/'', rr = Some 0, urls = [t], opts = None,
                                         proxy = None, isResolved = True \<rparr>
                    in Inr (Some (FromCache s, routeObject), cache(s \<mapsto> routeObject))))
      | RDescriptor d \<Rightarrow>
          (case cache (hashOf d) of
             Some entry \<Rightarrow> Inr (Some (FromCache (hashOf d), entry), cache)
           | None \<Rightarrow>
               (case d_url d of
                  None \<Rightarrow> Inr (None, cache)
                | Some us \<Rightarrow>
                    (case buildTargets parseUrl us
                            (Some (case d_opts d of None \<Rightarrow> no_opts | Some given \<Rightarrow> given)) of
                       Inl e \<Rightarrow> Inl e
                     | Inr ts \<Rightarrow>
                         let routeObject = \<lparr> path = (if d_path d = [] then ''/'' else d_path d),
                                              rr = Some 0, urls = ts, opts = None,
                                              proxy = None, isResolved = True \<rparr>
                         in Inr (Some (FromCache (hashOf d), routeObject),
                                 cache(hashOf d \<mapsto> routeObject))))))"

text \<open>
  The scan of \<open>resolve\<close> over the resolvers' results, in pipeline order.  A falsy
  result (\<open>undefined\<close>, or the empty string) is passed over before \<open>buildRoute\<close> is
  called.  A result that reached the scan with an origin is a route of the routing
  table, found by \<open>_defaultResolver\<close>.  An exception thrown on the way is caught by
  \<open>resolve\<close>, which then yields no route.
\<close>

definition falsyReply :: "resolver_result \<Rightarrow> bool" where
  "falsyReply reply = (case reply of RFalsy \<Rightarrow> True | RString s \<Rightarrow> s = [] | _ \<Rightarrow> False)"

fun resolveScan ::
  "(string \<Rightarrow> parsed_url option) \<Rightarrow> (descriptor \<Rightarrow> string) \<Rightarrow> string \<Rightarrow> (string \<rightharpoonup> route)
     \<Rightarrow> (origin option \<times> resolver_result) list \<Rightarrow> (origin \<times> route) option \<times> (string \<rightharpoonup> route)" where
  "resolveScan parseUrl hashOf url0 cache [] = (None, cache)"
| "resolveScan parseUrl hashOf url0 cache ((place, reply) # rest) =
     (if falsyReply reply then resolveScan parseUrl hashOf url0 cache rest
      else
        case buildRoute parseUrl hashOf cache reply of
          Inl e \<Rightarrow> (None, cache)
        | Inr (None, cache1) \<Rightarrow> resolveScan parseUrl hashOf url0 cache1 rest
        | Inr (Some (built, route0), cache1) \<Rightarrow>
            if \<not> isResolved route0 \<or> path route0 = ''/'' \<or> startsWith url0 (path route0)
            then (Some (case place of None \<Rightarrow> built | Some known \<Rightarrow> known, route0), cache1)
            else resolveScan parseUrl hashOf url0 cache1 rest)"

text \<open>\<open>host.toLowerCase()\<close>, on ASCII host names.\<close>

definition toLowerCase :: "string \<Rightarrow> string" where
  "toLowerCase s =
     map (\<lambda>c. let n = (of_char c :: nat) in
                if 65 \<le> n \<and> n \<le> 90 then char_of (n + 32) else c) s"

text \<open>
  One resolver call.  Resolver \<open>0\<close> is \<open>_defaultResolver\<close>; the others are given by
  \<open>fns\<close>.  The result is \<open>None\<close> when the resolver rejects; one rejection makes
  \<open>Promise.all\<close> reject, and \<open>resolve\<close> then yields no route.
\<close>

type_synonym resolver_fns =
  "nat \<Rightarrow> reverse_proxy \<Rightarrow> string option \<Rightarrow> string \<Rightarrow> request \<Rightarrow> resolver_reply"

definition callResolver ::
  "resolver_fns \<Rightarrow> reverse_proxy \<Rightarrow> string option \<Rightarrow> string \<Rightarrow> request \<Rightarrow> nat
     \<Rightarrow> (origin option \<times> resolver_result) option" where
  "callResolver fns rp host0 url0 req f =
     (if f = 0 then
        (case defaultResolver rp host0 url0 of
           None \<Rightarrow> Some (None, RFalsy)
         | Some (place, r) \<Rightarrow> Some (Some place, RRoute r))
      else
        (case fns f rp host0 url0 req of
           Rejected \<Rightarrow> None
         | Reply v \<Rightarrow> Some (None, v)))"

definition resolve ::
  "(string \<Rightarrow> parsed_url option) \<Rightarrow> (descriptor \<Rightarrow> string) \<Rightarrow> resolver_fns \<Rightarrow> module_state
     \<Rightarrow> reverse_proxy \<Rightarrow> string option \<Rightarrow> string \<Rightarrow> request
     \<Rightarrow> (origin \<times> route) option \<times> module_state" where
  "resolve parseUrl hashOf fns m rp host0 url0 req =
     (let host1 = map_option toLowerCase host0;
          replies = map (callResolver fns rp host1 url0 req) (resolvers rp)
      in case those replies of
           None \<Rightarrow> (None, m)
         | Some settled \<Rightarrow>
             (case resolveScan parseUrl hashOf url0 (routeCache m) settled of
                (found, cache1) \<Rightarrow> (found, m\<lparr>routeCache := cache1\<rparr>)))"

section \<open>Target selection and URL rewriting\<close>

text \<open>
  The body of \<open>_getRouteTarget\<close> from the route lookup up to the log line: strip the
  route path, pick the target round-robin, fix the request URL, set the host override.
  Reading \<open>urls[j]\<close> outside the array gives \<open>undefined\<close>, and \<open>target.pathname\<close>
  then throws; the stripped URL and the new \<open>rr\<close> stay written.
\<close>

definition stripPrefix :: "route \<Rightarrow> request \<Rightarrow> request" where
  "stripPrefix route0 req =
     (if 1 < length (path route0)
      then req\<lparr>saved_url := Some (url req), url := drop (length (path route0)) (url req)\<rparr>
      else req)"

definition nextRr :: "route \<Rightarrow> nat option" where
  "nextRr route0 =
     (case rr route0 of
        None \<Rightarrow> None
      | Some j \<Rightarrow> if urls route0 = [] then None else Some ((j + 1) mod length (urls route0)))"

definition pickTarget :: "route \<Rightarrow> target option" where
  "pickTarget route0 =
     (case rr route0 of
        None \<Rightarrow> None
      | Some j \<Rightarrow> if j < length (urls route0) then Some (urls route0 ! j) else None)"

definition joinTargetPath :: "target \<Rightarrow> request \<Rightarrow> request" where
  "joinTargetPath t req =
     (if pathname t \<noteq> [] then
        (if url req \<noteq> [] then
           (if hd (url req) = CHR ''?'' then req\<lparr>url := pathname t @ url req\<rparr>
            else req\<lparr>url := posix_join [pathname t, url req]\<rparr>)
         else req\<lparr>url := pathname t\<rparr>)
      else req)"

definition setTargetHost :: "target \<Rightarrow> request \<Rightarrow> request" where
  "setTargetHost t req = (if useTargetHostHeader t then req\<lparr>host_override := Some (host t)\<rparr> else req)"

definition selectAndRewrite :: "route \<Rightarrow> request \<Rightarrow> request \<times> route \<times> (error + target)" where
  "selectAndRewrite route0 req =
     (let req1 = stripPrefix route0 req;
          route1 = route0\<lparr>rr := nextRr route0\<rparr>
      in case pickTarget route0 of
           None \<Rightarrow> (req1, route1, Inl (TypeError ''Cannot read property pathname of undefined''))
         | Some t \<Rightarrow> (setTargetHost t (joinTargetPath t req1), route1, Inr t))"

text \<open>
  The whole callback of \<open>_getRouteTarget\<close>, given what \<open>resolve\<close> found.  The result
  holds the request and response as the call leaves them, the route with its new
  \<open>rr\<close>, and either the error thrown or the pair \<open>{route, target}\<close> (\<open>{}\<close> when no
  route was found).  A route without \<open>opts\<close> makes \<open>route.opts.onRequest\<close> throw.
\<close>

definition getRouteTargetThen ::
  "route option \<Rightarrow> request \<Rightarrow> response option
     \<Rightarrow> request \<times> response option \<times> route option \<times> (error + (route option \<times> jsvalue option))" where
  "getRouteTargetThen found req res =
     (case found of
        None \<Rightarrow> (req, res, None, Inr (None, None))
      | Some route0 \<Rightarrow>
          (case selectAndRewrite route0 req of
             (req1, route1, Inl e) \<Rightarrow> (req1, res, Some route1, Inl e)
           | (req1, route1, Inr t) \<Rightarrow>
               (case opts route1 of
                  None \<Rightarrow> (req1, res, Some route1,
                             Inl (TypeError ''Cannot read property onRequest of undefined''))
                | Some o1 \<Rightarrow>
                    (case onRequest o1 of
                       None \<Rightarrow> (req1, res, Some route1, Inr (Some route1, Some (JTarget t)))
                     | Some hook \<Rightarrow>
                         (case hook req1 res t of
                            Inl e \<Rightarrow> (req1, res, Some route1, Inl e)
                          | Inr (None, req2, change) \<Rightarrow>
                              (req2, map_option change res, Some route1,
                               Inr (Some route1, Some (JTarget t)))
                          | Inr (Some x, req2, change) \<Rightarrow>
                              (req2, map_option change res, Some route1,
                               Inr (Some route1, Some x)))))))"

text \<open>
  Storing the route back where it lives: the route object is shared with the routing
  table or the route cache, so its new \<open>rr\<close> is seen by the next request.
\<close>

definition storeRoute :: "origin \<Rightarrow> route \<Rightarrow> module_state \<times> reverse_proxy \<Rightarrow> module_state \<times> reverse_proxy" where
  "storeRoute place r st =
     (case st of (m, rp) \<Rightarrow>
        (case place of
           FromTable h i \<Rightarrow>
             (case routing rp h of
                None \<Rightarrow> (m, rp)
              | Some b \<Rightarrow> (m, rp\<lparr>routing := (routing rp)(h \<mapsto> b[i := r])\<rparr>))
         | FromCache k \<Rightarrow> (m\<lparr>routeCache := (routeCache m)(k \<mapsto> r)\<rparr>, rp)
         | Detached \<Rightarrow> (m, rp)))"

text \<open>\<open>_getRouteTarget\<close>: resolve, then the callback, on the shared route object.\<close>

definition getRouteTarget ::
  "(string \<Rightarrow> parsed_url option) \<Rightarrow> (descriptor \<Rightarrow> string) \<Rightarrow> resolver_fns \<Rightarrow> module_state
     \<Rightarrow> reverse_proxy \<Rightarrow> string option \<Rightarrow> request \<Rightarrow> response option
     \<Rightarrow> (module_state \<times> reverse_proxy) \<times> request \<times> response option
        \<times> (error + (route option \<times> jsvalue option))" where
  "getRouteTarget parseUrl hashOf fns m rp src req res =
     (case resolve parseUrl hashOf fns m rp src (url req) req of
        (None, m1) \<Rightarrow> ((m1, rp), req, res, Inr (None, None))
      | (Some (place, route0), m1) \<Rightarrow>
          (case getRouteTargetThen (Some route0) req res of
             (req1, res1, None, outcome) \<Rightarrow> ((m1, rp), req1, res1, outcome)
           | (req1, res1, Some route1, outcome) \<Rightarrow>
               (storeRoute place route1 (m1, rp), req1, res1, outcome)))"

section \<open>Request handling\<close>

text \<open>
  \<open>res.writeHead(status)\<close> and \<open>res.end(data)\<close>, as far as the proxy observes them.
  On a response whose headers are already sent \<open>writeHead\<close> throws
  (\<open>ERR_HTTP_HEADERS_SENT\<close>); otherwise it stores the status line, after which the
  headers count as sent.
\<close>

definition writeHead :: "nat \<Rightarrow> response \<Rightarrow> error + response" where
  "writeHead status res =
     (if headersSent res
      then Inl (HeadersSentError ''Cannot write headers after they are sent to the client'')
      else Inr (res\<lparr>statusCode := Some status, headersSent := True\<rparr>))"

definition endResponse :: "string option \<Rightarrow> response \<Rightarrow> response" where
  "endResponse body res =
     res\<lparr>written := written res @ (case body of None \<Rightarrow> [] | Some chunk \<Rightarrow> chunk),
         headersSent := True, ended := True\<rparr>"

text \<open>The responder the module starts with.\<close>

definition defaultNotFound :: responder where
  "defaultNotFound req res =
     endResponse None (res\<lparr>statusCode := Some 404, written := written res @ ''Not Found'',
                            headersSent := True\<rparr>)"

datatype callback = NotFunction | Function responder

definition notFound :: "module_state \<Rightarrow> reverse_proxy \<Rightarrow> callback \<Rightarrow> error + module_state" where
  "notFound m rp cb =
     (case cb of
        NotFunction \<Rightarrow> Inl (AssertionError ''notFound callback is not a function'')
      | Function f \<Rightarrow> Inr (m\<lparr>respondNotFound := f\<rparr>))"

text \<open>
  \<open>shouldRedirectToHttps(certs, src, target, proxy)\<close>.  Reading \<open>sslRedirect\<close> from
  \<open>null\<close> or \<open>undefined\<close> throws; a string or \<open>false\<close> has no such property.
\<close>

definition shouldRedirectToHttps :: "reverse_proxy \<Rightarrow> string option \<Rightarrow> jsvalue option \<Rightarrow> error + bool" where
  "shouldRedirectToHttps rp src tgt =
     (case certs rp of
        None \<Rightarrow> Inr False
      | Some cs \<Rightarrow>
          (case src of
             None \<Rightarrow> Inr False
           | Some h \<Rightarrow>
               if cs h = None then Inr False
               else
                 (case tgt of
                    None \<Rightarrow> Inl (TypeError ''Cannot read property sslRedirect of undefined'')
                  | Some JNull \<Rightarrow> Inl (TypeError ''Cannot read property sslRedirect of null'')
                  | Some JFalse \<Rightarrow> Inr False
                  | Some (JString s) \<Rightarrow> Inr False
                  | Some (JTarget t) \<Rightarrow>
                      Inr (sslRedirect t \<and> Some (host t) \<noteq> letsencryptHost rp))))"

definition redirectToHttps :: "reverse_proxy \<Rightarrow> request \<Rightarrow> response \<Rightarrow> error + (request \<times> response)" where
  "redirectToHttps rp req res =
     (let req1 = req\<lparr>url := (case saved_url req of
                                Some original \<Rightarrow> if original = [] then url req else original
                              | None \<Rightarrow> url req)\<rparr>;
          targetPort = (case redirectPort rp of
                          Some p \<Rightarrow> if p = [] then sslPort rp else Some p
                        | None \<Rightarrow> sslPort rp)
      in case map_of (headers req1) ''host'' of
           None \<Rightarrow> Inl (TypeError ''Cannot read property split of undefined'')
         | Some hostHeader \<Rightarrow>
             let hostname1 = takeWhile (\<lambda>c. c \<noteq> CHR '':'') hostHeader @
                               (case targetPort of
                                  None \<Rightarrow> []
                                | Some p \<Rightarrow> if p = [] then [] else '':'' @ p)
             in case writeHead 302 res of
                  Inl e \<Rightarrow> Inl e
                | Inr res1 \<Rightarrow>
                    Inr (req1, endResponse None
                                 (res1\<lparr>location :=
                                         Some (''https://'' @ posix_join [hostname1, url req1])\<rparr>)))"

text \<open>
  What the first callback of a listener does with the pair from \<open>_getRouteTarget\<close>:
  answer not-found, do nothing because the hook said \<open>false\<close>, redirect to HTTPS, or
  hand the request to the route's forwarder.  A forward is recorded by the handle and
  the arguments of \<open>Object.assign\<close>: the target, then the instance's and the route's
  \<open>httpProxy\<close> options.
\<close>

datatype action =
    NotFound response
  | Skipped
  | Redirected request response
  | Forwarded proxy_handle "jsvalue option" "(string \<times> string) list" "(string \<times> string) list"
  | UpgradedTo jsvalue

definition forward ::
  "(string \<times> string) list \<Rightarrow> route \<Rightarrow> jsvalue option \<Rightarrow> error + action" where
  "forward globalHttpProxy route0 tgt =
     (case opts route0 of
        None \<Rightarrow> Inl (TypeError ''Cannot read property httpProxy of undefined'')
      | Some o1 \<Rightarrow>
          (case proxy route0 of
             None \<Rightarrow> Inl (TypeError ''Cannot read property web of undefined'')
           | Some handle \<Rightarrow> Inr (Forwarded handle tgt globalHttpProxy (httpProxy o1))))"

definition httpRequestThen ::
  "module_state \<Rightarrow> reverse_proxy \<Rightarrow> (string \<times> string) list \<Rightarrow> string option \<Rightarrow> request \<Rightarrow> response
     \<Rightarrow> route option \<times> jsvalue option \<Rightarrow> error + action" where
  "httpRequestThen m rp globalHttpProxy src req res found =
     (case found of
        (None, tgt) \<Rightarrow> Inr (NotFound (respondNotFound m req res))
      | (Some route0, tgt) \<Rightarrow>
          if tgt = Some JFalse then Inr Skipped
          else
            (case shouldRedirectToHttps rp src tgt of
               Inl e \<Rightarrow> Inl e
             | Inr True \<Rightarrow>
                 (case redirectToHttps rp req res of
                    Inl e \<Rightarrow> Inl e
                  | Inr (req1, res1) \<Rightarrow> Inr (Redirected req1 res1))
             | Inr False \<Rightarrow> forward globalHttpProxy route0 tgt))"

definition httpsRequestThen ::
  "module_state \<Rightarrow> reverse_proxy \<Rightarrow> (string \<times> string) list \<Rightarrow> string option \<Rightarrow> request \<Rightarrow> response
     \<Rightarrow> route option \<times> jsvalue option \<Rightarrow> error + action" where
  "httpsRequestThen m rp globalHttpProxy src req res found =
     (case found of
        (None, tgt) \<Rightarrow> Inr (NotFound (respondNotFound m req res))
      | (Some route0, tgt) \<Rightarrow>
          if tgt = Some JFalse then Inr Skipped
          else forward globalHttpProxy route0 tgt)"

text \<open>
  The callback of \<open>_websocketsUpgrade\<close>: a truthy target is handed to the default
  forwarder, anything else is answered by the not-found responder on the socket.
\<close>

definition websocketsUpgradeThen ::
  "module_state \<Rightarrow> request \<Rightarrow> response \<Rightarrow> route option \<times> jsvalue option \<Rightarrow> action" where
  "websocketsUpgradeThen m req socket found =
     (case snd found of
        Some (JTarget t) \<Rightarrow> UpgradedTo (JTarget t)
      | Some (JString s) \<Rightarrow>
          if s = [] then NotFound (respondNotFound m req socket) else UpgradedTo (JString s)
      | _ \<Rightarrow> NotFound (respondNotFound m req socket))"

section \<open>Default error handler\<close>

record proxy_error =
  errCode :: "string option"
  errMessage :: string

text \<open>
  \<open>handleProxyError\<close>.  The \<open>ECONNREFUSED\<close> branch calls \<open>writeHead\<close> without
  asking whether the headers were sent, so the call can throw there, before the
  response is ended.  The second component of the result tells whether the error was
  logged.
\<close>

definition handleProxyError ::
  "proxy_error \<Rightarrow> request \<Rightarrow> response \<Rightarrow> error + (response \<times> bool)" where
  "handleProxyError err req res =
     (case (if errCode err = Some ''ECONNREFUSED''
            then (if hasWriteHead res then writeHead 502 res else Inr res)
            else if \<not> headersSent res
            then (if hasWriteHead res then writeHead 500 res else Inr res)
            else Inr res) of
        Inl e \<Rightarrow> Inl e
      | Inr res1 \<Rightarrow> Inr (endResponse (errCode err) res1, errMessage err \<noteq> ''socket hang up''))"

section \<open>Invariants of the routing table\<close>

definition bucketOf :: "reverse_proxy \<Rightarrow> string \<Rightarrow> route list" where
  "bucketOf rp h = (case routing rp h of None \<Rightarrow> [] | Some b \<Rightarrow> b)"

text \<open>A bucket is sorted when its paths come in descending length.\<close>

definition bucketSorted :: "route list \<Rightarrow> bool" where
  "bucketSorted b \<longleftrightarrow> sorted (map (\<lambda>r. - int (length (path r))) b)"

text \<open>
  Every bucket is sorted and no route in the table is without a target.
\<close>

definition bucketsWellFormed :: "reverse_proxy \<Rightarrow> bool" where
  "bucketsWellFormed rp \<longleftrightarrow>
     (\<forall>h. bucketSorted (bucketOf rp h) \<and> (\<forall>r \<in> set (bucketOf rp h). urls r \<noteq> []))"

text \<open>The round-robin index of a route points into its target list.\<close>

definition rrInRange :: "route \<Rightarrow> bool" where
  "rrInRange r = (case rr r of None \<Rightarrow> False | Some j \<Rightarrow> j < length (urls r))"

section \<open>Example instances\<close>

definition emptyProxy :: reverse_proxy where
  "emptyProxy = \<lparr> clusterMaster = False, routing = Map.empty, certs = None, httpsServers = 0,
                   letsencryptPath = False, letsencryptHost = None, proxies = [],
                   resolvers = [0], redirectPort = None, sslPort = None,
                   acmeRequests = [], clearedTimeouts = [] \<rparr>"

definition exampleSrc :: parsed_url where
  "exampleSrc = \<lparr> protocol = ''http:'', hostname = ''example.com'', port = [],
                   pathname = ''/'', host = ''example.com'', href = ''http://example.com/'' \<rparr>"

definition backendA :: parsed_url where
  "backendA = \<lparr> protocol = ''http:'', hostname = ''10.0.0.1'', port = ''3000'',
                 pathname = ''/'', host = ''10.0.0.1:3000'', href = ''http://10.0.0.1:3000/'' \<rparr>"

definition backendB :: parsed_url where
  "backendB = \<lparr> protocol = ''http:'', hostname = ''10.0.0.2'', port = ''3000'',
                 pathname = ''/'', host = ''10.0.0.2:3000'', href = ''http://10.0.0.2:3000/'' \<rparr>"

text \<open>A parser that accepts nothing: the examples pass parsed URLs.\<close>

definition noParse :: "string \<Rightarrow> parsed_url option" where
  "noParse s = None"

definition targetOf :: "parsed_url \<Rightarrow> target" where
  "targetOf u = \<lparr> protocol = protocol u, hostname = hostname u, port = port u,
                   pathname = pathname u, host = host u, href = href u,
                   sslRedirect = False, useTargetHostHeader = False \<rparr>"

definition routeWith :: "nat \<Rightarrow> target list \<Rightarrow> route" where
  "routeWith j ts = \<lparr> path = ''/'', rr = Some j, urls = ts, opts = Some no_opts,
                       proxy = Some DefaultProxy, isResolved = False \<rparr>"

definition proxyWith :: "nat \<Rightarrow> target list \<Rightarrow> reverse_proxy" where
  "proxyWith j ts = emptyProxy\<lparr>routing := [''example.com'' \<mapsto> [routeWith j ts]]\<rparr>"

text \<open>Options for a later \<open>register\<close> call that differ from those of the first.\<close>

definition pickyOpts :: route_opts where
  "pickyOpts = no_opts\<lparr>useTargetHostHeaderOpt := Some True, changeOrigin := Some True,
                        httpProxy := [(''secure'', ''false'')]\<rparr>"

section \<open>The pipeline order as the specification words it\<close>

text \<open>The functions among the arguments of an \<open>addResolver\<close> call, in order.\<close>

fun fnsOf :: "resolver_arg list \<Rightarrow> nat list" where
  "fnsOf [] = []"
| "fnsOf (Fn f # rest) = f # fnsOf rest"
| "fnsOf (NotAFunction # rest) = fnsOf rest"

text \<open>
  This definition follows the specification, not the source: the de-duplicated list in
  stable descending order of priority, so that resolvers of equal priority keep their
  order of insertion.
\<close>

definition stableDescending :: "priorities \<Rightarrow> nat list \<Rightarrow> nat list" where
  "stableDescending prio rs =
     sort_key (\<lambda>f. - (case prio f of None \<Rightarrow> 0 | Some p \<Rightarrow> p)) (uniq rs)"

text \<open>
  This definition follows the specification, not the source: strip a route path longer
  than one character, then join a non-empty target pathname to what remains with POSIX
  join, except that a remainder that begins with a question mark is appended directly.
\<close>

definition rewriteSpec :: "string \<Rightarrow> string \<Rightarrow> string \<Rightarrow> string" where
  "rewriteSpec routePath targetPathname url0 =
     (let rest = (if 1 < length routePath then drop (length routePath) url0 else url0)
      in if targetPathname = [] then rest
         else if rest \<noteq> [] \<and> hd rest = CHR ''?'' then targetPathname @ rest
         else posix_join [targetPathname, rest])"

section \<open>Example requests, routes and hooks\<close>

definition requestFor :: "string \<Rightarrow> request" where
  "requestFor u = \<lparr> url = u, saved_url = None, host_override = None,
                     headers = [(''host'', ''example.com'')] \<rparr>"

definition pathRoute :: "string \<Rightarrow> route" where
  "pathRoute p = \<lparr> path = ''/path'', rr = Some 0, urls = [(targetOf backendA)\<lparr>pathname := p\<rparr>],
                    opts = Some no_opts, proxy = Some DefaultProxy, isResolved = False \<rparr>"

definition noHash :: "descriptor \<Rightarrow> string" where
  "noHash d = []"

definition noResolvers :: resolver_fns where
  "noResolvers f rp h u req = Rejected"

definition freshModule :: module_state where
  "freshModule = \<lparr> respondNotFound = defaultNotFound, routeCache = Map.empty \<rparr>"

text \<open>
  Two hooks: one returns \<open>undefined\<close> and touches nothing; the other writes a 500
  answer, ends the response and returns \<open>false\<close>.
\<close>

definition freshResponse :: response where
  "freshResponse = \<lparr> hasWriteHead = True, statusCode = None, headersSent = False,
                       location = None, written = [], ended = False \<rparr>"

definition passHook :: onRequest_hook where
  "passHook req res t = Inr (None, req, id)"

definition skipHook :: onRequest_hook where
  "skipHook req res t =
     Inr (Some JFalse, req, \<lambda>r. endResponse (Some ''skip forward'') (r\<lparr>statusCode := Some 500\<rparr>))"

definition hookRoute :: "onRequest_hook \<Rightarrow> nat \<Rightarrow> target list \<Rightarrow> route" where
  "hookRoute hook j ts = \<lparr> path = ''/'', rr = Some j, urls = ts,
                            opts = Some (no_opts\<lparr>onRequest := Some hook\<rparr>),
                            proxy = Some DefaultProxy, isResolved = False \<rparr>"

definition sslTarget :: target where
  "sslTarget = (targetOf backendA)\<lparr>sslRedirect := True\<rparr>"

definition sslProxy :: reverse_proxy where
  "sslProxy = emptyProxy\<lparr>certs := Some [''example.com'' \<mapsto> None], httpsServers := 1,
                        sslPort := Some ''443''\<rparr>"

text \<open>
  A resolver that answers every request with a descriptor for the path \<open>/api\<close>, the
  route \<open>buildRoute\<close> makes of it, and an instance whose pipeline calls it first.
\<close>

definition apiDescriptor :: descriptor where
  "apiDescriptor = \<lparr> d_url = Some [UrlObject backendB], d_path = ''/api'', d_opts = None \<rparr>"

definition apiResolver :: resolver_fns where
  "apiResolver f rp h u req = Reply (RDescriptor apiDescriptor)"

definition apiRoute :: route where
  "apiRoute = \<lparr> path = ''/api'', rr = Some 0, urls = [targetOf backendB], opts = None,
                 proxy = None, isResolved = True \<rparr>"

definition apiProxy :: reverse_proxy where
  "apiProxy = (proxyWith 0 [targetOf backendA])\<lparr>resolvers := [1, 0]\<rparr>"

text \<open>
  A refused connection, a raw socket in the place of a response, and a not-found
  responder of the user's.
\<close>

definition refused :: proxy_error where
  "refused = \<lparr> errCode = Some ''ECONNREFUSED'', errMessage = ''connect ECONNREFUSED 10.0.0.1:3000'' \<rparr>"

definition rawSocket :: response where
  "rawSocket = freshResponse\<lparr>hasWriteHead := False\<rparr>"

definition teapot :: responder where
  "teapot req res = endResponse (Some ''no such page'') (res\<lparr>statusCode := Some 418\<rparr>)"

text \<open>
  An instance with an HTTPS listener and an empty certificate store, and options for a
  later \<open>register\<close> call that ask for \<open>ssl\<close> and for the target's host header.
\<close>

definition tlsProxy :: reverse_proxy where
  "tlsProxy = (proxyWith 0 [targetOf backendA])\<lparr>certs := Some Map.empty, httpsServers := 1\<rparr>"

definition tlsOpts :: route_opts where
  "tlsOpts = no_opts\<lparr>ssl := Some \<lparr>key = None, cert = None, ca = None, letsencrypt = None,
                                    redirect = None\<rparr>,
                      useTargetHostHeaderOpt := Some True\<rparr>"

text \<open>A response whose headers are already sent.\<close>

definition sentResponse :: response where
  "sentResponse = freshResponse\<lparr>statusCode := Some 200, headersSent := True, written := ''partial''\<rparr>"

section \<open>Properties of the prefix test\<close>

lemma take_eq_iff_prefix: "take (length p) u = p \<longleftrightarrow> prefix p u"
  by (metis append_eq_conv_conj prefix_def)

lemma prefix_same_length: "prefix p u \<Longrightarrow> length u = length p \<longleftrightarrow> u = p"
  by (auto simp: prefix_def)

text \<open>
  Claim C1.  The path prefix test \<open>startsWith u p\<close> is true exactly when \<open>u\<close> starts
  with \<open>p\<close> and either \<open>u\<close> equals \<open>p\<close> or the character of \<open>u\<close> at index
  \<open>length p\<close> exists and is a slash or a question mark.  In particular \<open>/foobar\<close>
  does not match the prefix \<open>/foo\<close>, and \<open>/foo\<close> does not match the prefix
  \<open>/foobar\<close>.
\<close>

theorem startsWith_characterisation:
  "(startsWith u p \<longleftrightarrow>
      prefix p u \<and>
      (u = p \<or> (length p < length u \<and> (u ! length p = CHR ''/'' \<or> u ! length p = CHR ''?''))))
   \<and> startsWith ''/foobar'' ''/foo'' = False
   \<and> startsWith ''/foo'' ''/foobar'' = False"
proof -
  have general: "startsWith u p \<longleftrightarrow>
      prefix p u \<and>
      (u = p \<or> (length p < length u \<and> (u ! length p = CHR ''/'' \<or> u ! length p = CHR ''?'')))"
    unfolding startsWith_def take_eq_iff_prefix
    using prefix_same_length [of p u] by blast
  have longer: "startsWith ''/foobar'' ''/foo'' = False"
    by (simp add: startsWith_def)
  have shorter: "startsWith ''/foo'' ''/foobar'' = False"
    by (simp add: startsWith_def)
  from general longer shorter show ?thesis by blast
qed

section \<open>Properties of registration\<close>

lemma findIndex_less_iff: "findIndex P xs < length xs \<longleftrightarrow> (\<exists>x \<in> set xs. P x)"
  by (induction xs) auto

lemma findIndex_nth: "findIndex P xs < length xs \<Longrightarrow> P (xs ! findIndex P xs)"
  by (induction xs) auto

lemma findIndex_cong_map: "map P xs = map P ys \<Longrightarrow> findIndex P xs = findIndex P ys"
proof (induction xs arbitrary: ys)
  case Nil
  then show ?case by simp
next
  case (Cons x xs)
  then obtain y ys' where "ys = y # ys'" by (cases ys) auto
  with Cons show ?case by auto
qed

lemma findIndex_update_same:
  assumes "i < length xs" "P y \<longleftrightarrow> P (xs ! i)"
  shows "findIndex P (xs[i := y]) = findIndex P xs"
proof (rule findIndex_cong_map)
  show "map P (xs[i := y]) = map P xs"
    using assms by (simp add: map_update list_update_same_conv)
qed

lemma splice_unique:
  "filter P ys = [r] \<Longrightarrow>
     take (findIndex P ys) ys @ drop (Suc (findIndex P ys)) ys = filter (\<lambda>x. \<not> P x) ys"
proof (induction ys)
  case Nil
  then show ?case by simp
next
  case (Cons y ys)
  show ?case
  proof (cases "P y")
    case True
    with Cons.prems have "filter P ys = []" by simp
    then have "filter (\<lambda>x. \<not> P x) ys = ys"
      by (simp add: filter_empty_conv)
    with True show ?thesis by simp
  next
    case False
    with Cons show ?thesis by simp
  qed
qed

lemma registerCerts_routing:
  "registerCerts rp src opts0 = Inr (rp1, flag) \<Longrightarrow>
     routing rp1 = routing rp \<and> clusterMaster rp1 = clusterMaster rp \<and> (\<not> flag \<longrightarrow> rp1 = rp)"
  by (auto simp: registerCerts_def split: option.splits if_splits)



lemma buildTarget_href:
  "buildTarget parseUrl t0 opts0 = Inr t \<Longrightarrow> prepareUrl parseUrl t0 = Inr u \<Longrightarrow> href t = href u"
  by (auto simp: buildTarget_def Let_def split: sum.splits)

lemma sortRoutes_new_route:
  assumes "bucketSorted host0" "\<forall>r \<in> set host0. \<not> P r" "P r1"
  shows "let ys = sortRoutes (host0 @ [r1]); i = findIndex P ys in
           i < length ys \<and> ys ! i = r1 \<and> take i ys @ drop (Suc i) ys = host0"
proof -
  let ?f = "\<lambda>r. - int (length (path r))"
  let ?ys = "sortRoutes (host0 @ [r1])"
  have fP: "filter P ?ys = [r1]"
    using assms(2,3) unfolding sortRoutes_def
    by (simp add: filter_sort filter_empty_conv)
  have "r1 \<in> set (filter P ?ys)" unfolding fP by simp
  hence ex: "\<exists>x \<in> set ?ys. P x" by auto
  hence lt: "findIndex P ?ys < length ?ys" by (simp add: findIndex_less_iff)
  have "P (?ys ! findIndex P ?ys)" using lt by (rule findIndex_nth)
  moreover have "?ys ! findIndex P ?ys \<in> set ?ys" using lt by simp
  ultimately have "?ys ! findIndex P ?ys \<in> set (filter P ?ys)" by simp
  hence nth: "?ys ! findIndex P ?ys = r1" using fP by simp
  have "filter (\<lambda>x. \<not> P x) ?ys = sort_key ?f (filter (\<lambda>x. \<not> P x) (host0 @ [r1]))"
    unfolding sortRoutes_def by (simp add: filter_sort)
  also have "filter (\<lambda>x. \<not> P x) (host0 @ [r1]) = host0"
    using assms(2,3) by (simp add: filter_id_conv)
  also have "sort_key ?f host0 = host0"
    using assms(1) unfolding bucketSorted_def by (rule sort_key_id_if_sorted)
  finally have "take (findIndex P ?ys) ?ys @ drop (Suc (findIndex P ?ys)) ?ys = host0"
    using splice_unique [OF fP] by simp
  with lt nth show ?thesis by (simp add: Let_def)
qed



text \<open>
  The buckets stay sorted and the routes keep at least one target, whatever
  \<open>register\<close> and \<open>unregister\<close> calls are made on a fresh instance.
\<close>

lemma sorted_splice:
  fixes xs :: "'a::linorder list"
  assumes "sorted xs"
  shows "sorted (take i xs @ drop (Suc i) xs)"
proof -
  have split: "sorted (take i xs @ drop i xs)" using assms by simp
  have sub: "set (drop (Suc i) xs) \<subseteq> set (drop i xs)"
    by (metis drop_Suc set_drop_subset tl_drop drop_drop plus_1_eq_Suc)
  from split have "sorted (take i xs)" "sorted (drop i xs)"
    and cross: "\<forall>x \<in> set (take i xs). \<forall>y \<in> set (drop i xs). x \<le> y"
    by (auto simp only: sorted_append)
  moreover have "sorted (drop (Suc i) xs)" using assms by (rule sorted_wrt_drop)
  ultimately show ?thesis using sub by (auto simp: sorted_append)
qed

lemma bucketSorted_splice: "bucketSorted b \<Longrightarrow> bucketSorted (take i b @ drop (Suc i) b)"
  unfolding bucketSorted_def
  using sorted_splice [of "map (\<lambda>r. - int (length (path r))) b" i]
  by (simp add: take_map drop_map)

lemma bucketSorted_update:
  assumes "bucketSorted b" "path r = path (b ! i)"
  shows "bucketSorted (b[i := r])"
proof (cases "i < length b")
  case True
  let ?f = "\<lambda>r. - int (length (path r))"
  have "map ?f (b[i := r]) = (map ?f b)[i := map ?f b ! i]"
    using True assms(2) by (simp add: map_update)
  hence "map ?f (b[i := r]) = map ?f b" by simp
  with assms(1) show ?thesis by (simp add: bucketSorted_def)
next
  case False
  hence "b[i := r] = b" by (simp add: not_less list_update_beyond)
  with assms(1) show ?thesis by simp
qed

lemma bucketSorted_sortRoutes: "bucketSorted (sortRoutes b)"
  by (simp add: bucketSorted_def sortRoutes_def)

lemma register_keeps_buckets:
  assumes inv: "bucketsWellFormed rp"
      and reg: "register parseUrl rp src0 t0 opts0 = Inr (rp1, flag)"
  shows "bucketsWellFormed rp1"
proof (cases "clusterMaster rp")
  case True
  with reg inv show ?thesis by (simp add: register_def)
next
  case worker: False
  from reg worker have truthy: "truthy src0" "truthy t0"
    by (auto simp: register_def split: if_splits)
  from reg worker truthy obtain src t rpc where
        src: "prepareUrl parseUrl src0 = Inr src"
    and t: "buildTarget parseUrl t0 opts0 = Inr t"
    and rc: "registerCerts rp src opts0 = Inr (rpc, flag)"
    by (auto simp: register_def Let_def split: sum.splits bool.splits prod.splits if_splits)
  have rpc: "routing rpc = routing rp" "\<not> flag \<longrightarrow> rpc = rp"
    using registerCerts_routing [OF rc] by blast+
  show ?thesis
  proof (cases flag)
    case False
    with reg worker truthy src t rc rpc inv show ?thesis
      by (simp add: register_def)
  next
    case True
    let ?h = "hostname src"
    let ?P = "\<lambda>r. path r = pathnameOrRoot src"
    let ?old = "bucketOf rp ?h"
    let ?i = "findIndex ?P ?old"
    have old: "(case routing rpc ?h of None \<Rightarrow> [] | Some b \<Rightarrow> b) = ?old"
      by (simp add: bucketOf_def rpc)
    from inv have srt: "bucketSorted ?old" and ne: "\<forall>r \<in> set ?old. urls r \<noteq> []"
      by (auto simp: bucketsWellFormed_def)
    have others: "\<forall>h. h \<noteq> ?h \<longrightarrow> bucketOf rp1 h = bucketOf rp h"
      using reg worker truthy src t rc True old
      by (auto simp: register_def Let_def bucketOf_def rpc split: if_splits prod.splits)
    have "bucketSorted (bucketOf rp1 ?h) \<and> (\<forall>r \<in> set (bucketOf rp1 ?h). urls r \<noteq> [])"
    proof (cases "?i < length ?old")
      case found: True
      let ?upd = "?old[?i := (?old ! ?i)\<lparr>urls := urls (?old ! ?i) @ [t]\<rparr>]"
      have "bucketOf rp1 ?h = ?upd"
        using reg worker truthy src t rc True old found
        by (auto simp: register_def Let_def bucketOf_def rpc)
      moreover have "bucketSorted ?upd" using srt by (simp add: bucketSorted_update)
      moreover have "\<forall>r \<in> set ?upd. urls r \<noteq> []"
        using ne by (auto dest!: set_update_subset_insert [THEN subsetD])
      ultimately show ?thesis by simp
    next
      case fresh: False
      obtain handle proxies1 where gp: "getProxy rpc src t opts0 = (handle, proxies1)"
        by (cases "getProxy rpc src t opts0")
      let ?new = "\<lparr> path = pathnameOrRoot src, rr = Some 0, urls = [t],
                      opts = Some (case opts0 of None \<Rightarrow> no_opts | Some given \<Rightarrow> given),
                      proxy = Some handle, isResolved = False \<rparr>"
      have "bucketOf rp1 ?h = sortRoutes (?old @ [?new])"
        using reg worker truthy src t rc True old fresh gp
        by (auto simp: register_def Let_def bucketOf_def rpc)
      moreover have "set (sortRoutes (?old @ [?new])) = insert ?new (set ?old)"
        by (simp add: sortRoutes_def)
      ultimately show ?thesis using ne by (simp add: bucketSorted_sortRoutes)
    qed
    with others inv show ?thesis
      unfolding bucketsWellFormed_def by metis
  qed
qed


lemma unregister_keeps_buckets:
  assumes inv: "bucketsWellFormed rp"
      and unreg: "unregister parseUrl rp src0 target0 = Inr rp1"
  shows "bucketsWellFormed rp1"
proof (cases "clusterMaster rp \<or> \<not> truthy src0")
  case True
  with unreg have "rp1 = rp" by (auto simp: unregister_def split: if_splits)
  with inv show ?thesis by simp
next
  case False
  hence worker: "\<not> clusterMaster rp" and truthy: "truthy src0" by simp_all
  from unreg worker truthy obtain src where src: "prepareUrl parseUrl src0 = Inr src"
    by (auto simp: unregister_def split: sum.splits)
  let ?h = "hostname src"
  let ?P = "\<lambda>r. path r = pathnameOrRoot src"
  let ?old = "bucketOf rp ?h"
  let ?i = "findIndex ?P ?old"
  have old: "(case routing rp ?h of None \<Rightarrow> [] | Some b \<Rightarrow> b) = ?old"
    by (simp add: bucketOf_def)
  from inv have srt: "bucketSorted ?old" and ne: "\<forall>r \<in> set ?old. urls r \<noteq> []"
    by (auto simp: bucketsWellFormed_def)
  show ?thesis
  proof (cases "?i < length ?old")
    case False
    with unreg worker truthy src old have "rp1 = rp"
      by (simp add: unregister_def Let_def)
    with inv show ?thesis by simp
  next
    case found: True
    let ?sel = "(case target0 of
                   None \<Rightarrow> Inr []
                 | Some t0 \<Rightarrow>
                     if truthy t0 then
                       (case prepareUrl parseUrl t0 of
                          Inl e \<Rightarrow> Inl e
                        | Inr t \<Rightarrow> Inr (filter (\<lambda>u. href u \<noteq> href t) (urls (?old ! ?i))))
                     else Inr [])"
    from unreg worker truthy src old found obtain urls1 where sel: "?sel = Inr urls1"
      by (cases ?sel) (simp_all add: unregister_def Let_def)
    have rp1: "routing rp1 = (routing rp)(?h \<mapsto>
              (if urls1 = [] then take ?i ?old @ drop (Suc ?i) ?old
               else ?old[?i := (?old ! ?i)\<lparr>urls := urls1\<rparr>]))"
      using unreg worker truthy src old found sel
      by (auto simp: unregister_def Let_def dropCerts_def split: option.splits)
    have others: "\<forall>h. h \<noteq> ?h \<longrightarrow> bucketOf rp1 h = bucketOf rp h"
      by (simp add: bucketOf_def rp1)
    have "bucketSorted (bucketOf rp1 ?h) \<and> (\<forall>r \<in> set (bucketOf rp1 ?h). urls r \<noteq> [])"
    proof (cases "urls1 = []")
      case True
      hence "bucketOf rp1 ?h = take ?i ?old @ drop (Suc ?i) ?old"
        by (simp add: bucketOf_def rp1)
      moreover have "set (take ?i ?old @ drop (Suc ?i) ?old) \<subseteq> set ?old"
        by (auto dest: in_set_takeD in_set_dropD)
      ultimately show ?thesis using srt ne by (auto simp: bucketSorted_splice)
    next
      case False
      hence "bucketOf rp1 ?h = ?old[?i := (?old ! ?i)\<lparr>urls := urls1\<rparr>]"
        by (simp add: bucketOf_def rp1)
      moreover have "bucketSorted (?old[?i := (?old ! ?i)\<lparr>urls := urls1\<rparr>])"
        using srt by (simp add: bucketSorted_update)
      moreover have "\<forall>r \<in> set (?old[?i := (?old ! ?i)\<lparr>urls := urls1\<rparr>]). urls r \<noteq> []"
        using ne False by (auto dest!: set_update_subset_insert [THEN subsetD])
      ultimately show ?thesis by simp
    qed
    with others inv show ?thesis
      unfolding bucketsWellFormed_def by metis
  qed
qed

lemma emptyProxy_buckets: "bucketsWellFormed emptyProxy"
  by (simp add: bucketsWellFormed_def bucketOf_def bucketSorted_def emptyProxy_def)

text \<open>
  Claim C4, as amended.  On an instance that keeps a routing table, let the bucket of
  the source's hostname be sorted by descending path length, and let the route for
  the source's hostname and pathname, if there is one, have a non-empty target list in
  which no target has the \<open>href\<close> of \<open>t\<close>.  Then \<open>register(src, t)\<close> followed by
  \<open>unregister(src, t)\<close> returns, and leaves the routing table as it was before the
  \<open>register\<close>, except that a hostname that had no bucket before now has an empty
  one.
\<close>

theorem register_unregister_restores:
  assumes worker: "\<not> clusterMaster rp"
      and src: "prepareUrl parseUrl src0 = Inr src"
      and tgt: "prepareUrl parseUrl t0 = Inr t"
      and reg: "register parseUrl rp src0 t0 opts0 = Inr (rp1, True)"
      and srt: "bucketSorted (bucketOf rp (hostname src))"
      and fresh: "\<forall>r \<in> set (bucketOf rp (hostname src)).
                    path r = pathnameOrRoot src \<longrightarrow>
                    urls r \<noteq> [] \<and> (\<forall>u \<in> set (urls r). href u \<noteq> href t)"
  shows "\<exists>rp2. unregister parseUrl rp1 src0 (Some t0) = Inr rp2 \<and>
               routing rp2 =
                 (if hostname src \<in> dom (routing rp) then routing rp
                  else (routing rp)(hostname src \<mapsto> []))"
proof -
  let ?h = "hostname src"
  let ?P = "\<lambda>r. path r = pathnameOrRoot src"
  let ?old = "bucketOf rp ?h"
  let ?i = "findIndex ?P ?old"
  from reg worker have truthy: "truthy src0" "truthy t0"
    by (auto simp: register_def split: if_splits)
  from reg worker truthy src obtain tb where tb: "buildTarget parseUrl t0 opts0 = Inr tb"
    by (auto simp: register_def split: sum.splits)
  have href_tb: "href tb = href t" using tb tgt by (rule buildTarget_href)
  from reg worker truthy src tb obtain rpc where
    rc: "registerCerts rp src opts0 = Inr (rpc, True)"
    by (auto simp: register_def split: sum.splits bool.splits prod.splits)
  hence rpc: "routing rpc = routing rp" "clusterMaster rpc = clusterMaster rp"
    using registerCerts_routing by blast+
  have host0: "(case routing rpc ?h of None \<Rightarrow> [] | Some b \<Rightarrow> b) = ?old"
    by (simp add: bucketOf_def rpc)
  show ?thesis
  proof (cases "?i < length ?old")
    case True
    let ?r = "?old ! ?i"
    let ?upd = "?old[?i := ?r\<lparr>urls := urls ?r @ [tb]\<rparr>]"
    from True have nonempty: "?old \<noteq> []" by auto
    then obtain b where b: "routing rp ?h = Some b"
      by (auto simp: bucketOf_def split: option.splits)
    hence bh: "b = ?old" by (simp add: bucketOf_def)
    have rp1: "rp1 = rpc\<lparr>routing := (routing rpc)(?h \<mapsto> ?upd)\<rparr>"
      using reg worker truthy src tb rc True host0
      by (simp add: register_def Let_def)
    have Pr: "?P ?r" using True by (rule findIndex_nth)
    have rin: "?r \<in> set ?old" using True by simp
    from fresh rin Pr have ne: "urls ?r \<noteq> []" and nohref: "\<forall>u \<in> set (urls ?r). href u \<noteq> href t"
      by blast+
    have idx: "findIndex ?P ?upd = ?i"
      using True Pr by (simp add: findIndex_update_same)
    have filt: "filter (\<lambda>u. href u \<noteq> href t) (urls ?r @ [tb]) = urls ?r"
      using nohref href_tb by (simp add: filter_id_conv)
    have undo: "?upd[?i := (?upd ! ?i)\<lparr>urls := urls ?r\<rparr>] = ?old"
      using True by (simp add: list_update_same_conv)
    have "unregister parseUrl rp1 src0 (Some t0) =
            Inr (rp1\<lparr>routing := (routing rp1)(?h \<mapsto> ?old)\<rparr>)"
      using True truthy src tgt rpc worker idx filt ne undo
      by (simp add: unregister_def rp1 Let_def)
    moreover have "(routing rp1)(?h \<mapsto> ?old) = routing rp"
      using b bh by (auto simp: rp1 rpc fun_eq_iff)
    ultimately show ?thesis using b by auto
  next
    case False
    hence none: "\<forall>r \<in> set ?old. \<not> ?P r"
      using findIndex_less_iff [of ?P ?old] by blast
    obtain handle proxies1 where gp: "getProxy rpc src tb opts0 = (handle, proxies1)"
      by (cases "getProxy rpc src tb opts0")
    let ?new = "\<lparr> path = pathnameOrRoot src, rr = Some 0, urls = [tb],
                      opts = Some (case opts0 of None \<Rightarrow> no_opts | Some given \<Rightarrow> given),
                      proxy = Some handle, isResolved = False \<rparr>"
    let ?ys = "sortRoutes (?old @ [?new])"
    have rp1: "rp1 = rpc\<lparr>routing := (routing rpc)(?h \<mapsto> ?ys), proxies := proxies1\<rparr>"
      using reg worker truthy src tb rc False host0 gp
      by (simp add: register_def Let_def)
    have P1: "?P ?new" by simp
    from sortRoutes_new_route [OF srt none P1]
    have lt: "findIndex ?P ?ys < length ?ys"
      and nth: "?ys ! findIndex ?P ?ys = ?new"
      and splice: "take (findIndex ?P ?ys) ?ys @ drop (Suc (findIndex ?P ?ys)) ?ys = ?old"
      by (simp_all add: Let_def)
    have filt: "filter (\<lambda>u. href u \<noteq> href t) (urls (?ys ! findIndex ?P ?ys)) = []"
      using href_tb by (simp add: nth)
    have "\<exists>rp2. unregister parseUrl rp1 src0 (Some t0) = Inr rp2 \<and>
                routing rp2 = (routing rp1)(?h \<mapsto> ?old)"
      using lt truthy src tgt rpc worker filt splice
      by (simp add: unregister_def rp1 Let_def dropCerts_def split: option.splits)
    moreover have "(routing rp1)(?h \<mapsto> ?old) =
        (if ?h \<in> dom (routing rp) then routing rp else (routing rp)(?h \<mapsto> []))"
      by (auto simp: rp1 rpc fun_eq_iff bucketOf_def split: option.splits)
    ultimately show ?thesis by auto
  qed
qed

text \<open>The amended claim at work: a second backend is added to a route and removed again.\<close>

theorem register_unregister_restores_witness:
  "register noParse (proxyWith 0 [targetOf backendA]) (UrlObject exampleSrc) (UrlObject backendB) None
     = Inr (proxyWith 0 [targetOf backendA, targetOf backendB], True)
   \<and> (\<exists>rp2. unregister noParse (proxyWith 0 [targetOf backendA, targetOf backendB])
                 (UrlObject exampleSrc) (Some (UrlObject backendB)) = Inr rp2
              \<and> routing rp2 = routing (proxyWith 0 [targetOf backendA]))"
proof -
  let ?rp = "proxyWith 0 [targetOf backendA]"
  have worker: "\<not> clusterMaster ?rp" by (simp add: proxyWith_def emptyProxy_def)
  have src: "prepareUrl noParse (UrlObject exampleSrc) = Inr exampleSrc"
    by (simp add: prepareUrl_def)
  have tgt: "prepareUrl noParse (UrlObject backendB) = Inr backendB"
    by (simp add: prepareUrl_def)
  have reg: "register noParse ?rp (UrlObject exampleSrc) (UrlObject backendB) None
               = Inr (proxyWith 0 [targetOf backendA, targetOf backendB], True)"
    by (simp add: register_def proxyWith_def emptyProxy_def truthy_def prepareUrl_def
        buildTarget_def registerCerts_def exampleSrc_def backendA_def backendB_def no_opts_def
        pathnameOrRoot_def routeWith_def targetOf_def Let_def)
  have srt: "bucketSorted (bucketOf ?rp (hostname exampleSrc))"
    by (simp add: bucketSorted_def bucketOf_def proxyWith_def emptyProxy_def exampleSrc_def)
  have fresh: "\<forall>r \<in> set (bucketOf ?rp (hostname exampleSrc)).
                 path r = pathnameOrRoot exampleSrc \<longrightarrow>
                 urls r \<noteq> [] \<and> (\<forall>u \<in> set (urls r). href u \<noteq> href backendB)"
    by (simp add: bucketOf_def proxyWith_def emptyProxy_def exampleSrc_def routeWith_def
        targetOf_def backendA_def backendB_def)
  have dom: "hostname exampleSrc \<in> dom (routing ?rp)"
    by (simp add: proxyWith_def emptyProxy_def exampleSrc_def)
  from register_unregister_restores [OF worker src tgt reg srt fresh] dom reg
  show ?thesis by simp
qed

text \<open>
  The claim as stated fails.  Registering a target that the route already holds and
  unregistering it once removes both copies, and the route with them; and on a fresh
  instance the pair leaves an empty bucket where there was none.
\<close>

theorem register_unregister_counterexample:
  "register noParse (proxyWith 0 [targetOf backendA]) (UrlObject exampleSrc) (UrlObject backendA) None
     = Inr (proxyWith 0 [targetOf backendA, targetOf backendA], True)
   \<and> unregister noParse (proxyWith 0 [targetOf backendA, targetOf backendA])
        (UrlObject exampleSrc) (Some (UrlObject backendA))
     = Inr (emptyProxy\<lparr>routing := [''example.com'' \<mapsto> []]\<rparr>)
   \<and> routing (proxyWith 0 [targetOf backendA]) ''example.com''
     = Some [routeWith 0 [targetOf backendA]]
   \<and> register noParse emptyProxy (UrlObject exampleSrc) (UrlObject backendA) None
     = Inr (proxyWith 0 [targetOf backendA], True)
   \<and> unregister noParse (proxyWith 0 [targetOf backendA])
        (UrlObject exampleSrc) (Some (UrlObject backendA))
     = Inr (emptyProxy\<lparr>routing := [''example.com'' \<mapsto> []]\<rparr>)
   \<and> routing emptyProxy ''example.com'' = None
   \<and> routing (emptyProxy\<lparr>routing := [''example.com'' \<mapsto> []]\<rparr>)
       \<noteq> routing (proxyWith 0 [targetOf backendA])
   \<and> routing (emptyProxy\<lparr>routing := [''example.com'' \<mapsto> []]\<rparr>) \<noteq> routing emptyProxy"
  by (simp add: register_def unregister_def dropCerts_def proxyWith_def emptyProxy_def truthy_def
      fun_eq_iff
      prepareUrl_def buildTarget_def registerCerts_def exampleSrc_def backendA_def no_opts_def
      pathnameOrRoot_def getProxy_def sortRoutes_def routeWith_def targetOf_def Let_def)

text \<open>
  The first route with a given property is the one \<open>findIndex\<close> reports.
\<close>

lemma findIndex_first:
  "i < length xs \<Longrightarrow> P (xs ! i) \<Longrightarrow> \<forall>j < i. \<not> P (xs ! j) \<Longrightarrow> findIndex P xs = i"
proof (induction xs arbitrary: i)
  case Nil
  then show ?case by simp
next
  case (Cons x xs)
  show ?case
  proof (cases i)
    case 0
    with Cons.prems show ?thesis by simp
  next
    case (Suc k)
    with Cons.prems have "\<not> P x" by auto
    moreover have "findIndex P xs = k"
    proof (rule Cons.IH)
      show "k < length xs" using Cons.prems Suc by simp
      show "P (xs ! k)" using Cons.prems Suc by simp
      show "\<forall>j < k. \<not> P (xs ! j)"
      proof (intro allI impI)
        fix j assume "j < k"
        hence "Suc j < i" using Suc by simp
        with Cons.prems(3) have "\<not> P ((x # xs) ! Suc j)" by blast
        thus "\<not> P (xs ! j)" by simp
      qed
    qed
    ultimately show ?thesis using Suc by simp
  qed
qed

text \<open>
  Claim C9, as amended.  Let a route for the source's hostname and pathname exist: the
  first route of the hostname's bucket whose path is the source's pathname, or \<open>/\<close>
  when the source has none.  A \<open>register\<close> call that returns \<open>this\<close> puts the new
  target at the end of that route's \<open>urls\<close> and changes nothing else in the routing
  table: the route keeps its \<open>opts\<close> (hooks included), its proxy handle, its path and
  its \<open>rr\<close>, and no proxy handle is created.  The options of the later call are not
  stored in the route, but they are not without effect: the appended target takes its
  \<open>sslRedirect\<close> and \<open>useTargetHostHeader\<close> flags from them, and only a call without
  an \<open>ssl\<close> option is sure to leave the certificate store and the certificate requests
  as they were.  A call that takes the early return leaves the instance as it was.
\<close>

theorem register_existing_route_appends:
  assumes worker: "\<not> clusterMaster rp"
      and src: "prepareUrl parseUrl src0 = Inr src"
      and tgt: "prepareUrl parseUrl t0 = Inr u"
      and bucket: "routing rp (hostname src) = Some b"
      and found: "i < length b"
      and same_path: "path (b ! i) = (if pathname src = [] then ''/'' else pathname src)"
      and first: "\<forall>j < i. path (b ! j) \<noteq> (if pathname src = [] then ''/'' else pathname src)"
      and reg: "register parseUrl rp src0 t0 laterOpts = Inr (rp1, returnedThis)"
  shows "(returnedThis \<longrightarrow>
           routing rp1 = (routing rp)(hostname src \<mapsto>
             b[i := (b ! i)\<lparr>urls := urls (b ! i) @
                 [\<lparr> protocol = protocol u, hostname = hostname u, port = port u,
                     pathname = pathname u, host = host u, href = href u,
                     sslRedirect =
                       (case laterOpts of
                          None \<Rightarrow> False
                        | Some given \<Rightarrow>
                            (case ssl given of None \<Rightarrow> False | Some s \<Rightarrow> redirect s \<noteq> Some False)),
                     useTargetHostHeader =
                       (case laterOpts of
                          None \<Rightarrow> False
                        | Some given \<Rightarrow> useTargetHostHeaderOpt given = Some True) \<rparr>]\<rparr>])
           \<and> opts (bucketOf rp1 (hostname src) ! i) = opts (b ! i)
           \<and> proxy (bucketOf rp1 (hostname src) ! i) = proxy (b ! i)
           \<and> path (bucketOf rp1 (hostname src) ! i) = path (b ! i)
           \<and> rr (bucketOf rp1 (hostname src) ! i) = rr (b ! i)
           \<and> proxies rp1 = proxies rp
           \<and> ((case laterOpts of None \<Rightarrow> True | Some given \<Rightarrow> ssl given = None)
                \<longrightarrow> certs rp1 = certs rp \<and> acmeRequests rp1 = acmeRequests rp))
       \<and> (\<not> returnedThis \<longrightarrow> rp1 = rp)"
proof -
  let ?p = "if pathname src = [] then ''/'' else pathname src"
  have idx: "findIndex (\<lambda>r. path r = pathnameOrRoot src) b = i"
    using found same_path first
    by (intro findIndex_first) (simp_all add: pathnameOrRoot_def)
  from reg worker have truthy: "truthy src0" "truthy t0"
    by (auto simp: register_def split: if_splits)
  let ?t = "\<lparr> protocol = protocol u, hostname = hostname u, port = port u,
               pathname = pathname u, host = host u, href = href u,
               sslRedirect =
                 (case laterOpts of
                    None \<Rightarrow> False
                  | Some given \<Rightarrow>
                      (case ssl given of None \<Rightarrow> False | Some s \<Rightarrow> redirect s \<noteq> Some False)),
               useTargetHostHeader =
                 (case laterOpts of
                    None \<Rightarrow> False
                  | Some given \<Rightarrow> useTargetHostHeaderOpt given = Some True) \<rparr>"
  have t: "buildTarget parseUrl t0 laterOpts = Inr ?t"
    using tgt by (simp add: buildTarget_def no_opts_def split: option.splits)
  from reg worker truthy src t obtain rpc where
    rc: "registerCerts rp src laterOpts = Inr (rpc, returnedThis)"
    by (auto simp: register_def Let_def split: sum.splits bool.splits prod.splits if_splits)
  hence rpc: "routing rpc = routing rp" "\<not> returnedThis \<longrightarrow> rpc = rp"
    using registerCerts_routing by blast+
  have prox: "proxies rpc = proxies rp"
    using rc by (auto simp: registerCerts_def split: option.splits if_splits)
  have nossl: "(case laterOpts of None \<Rightarrow> True | Some given \<Rightarrow> ssl given = None)
                 \<longrightarrow> certs rpc = certs rp \<and> acmeRequests rpc = acmeRequests rp"
    using rc by (auto simp: registerCerts_def split: option.splits)
  show ?thesis
  proof (cases returnedThis)
    case False
    with reg worker truthy src t rc rpc show ?thesis
      by (simp add: register_def)
  next
    case True
    have rp1: "rp1 = rpc\<lparr>routing := (routing rpc)(hostname src \<mapsto>
                  b[i := (b ! i)\<lparr>urls := urls (b ! i) @ [?t]\<rparr>])\<rparr>"
      using reg worker truthy src t rc True bucket idx found rpc
      by (simp add: register_def Let_def)
    have table: "routing rp1 = (routing rp)(hostname src \<mapsto>
                  b[i := (b ! i)\<lparr>urls := urls (b ! i) @ [?t]\<rparr>])"
      by (simp add: rp1 rpc)
    have frame: "opts (bucketOf rp1 (hostname src) ! i) = opts (b ! i)"
                "proxy (bucketOf rp1 (hostname src) ! i) = proxy (b ! i)"
                "path (bucketOf rp1 (hostname src) ! i) = path (b ! i)"
                "rr (bucketOf rp1 (hostname src) ! i) = rr (b ! i)"
      using found by (simp_all add: rp1 bucketOf_def)
    have rest: "proxies rp1 = proxies rp"
      "(case laterOpts of None \<Rightarrow> True | Some given \<Rightarrow> ssl given = None)
         \<longrightarrow> certs rp1 = certs rp \<and> acmeRequests rp1 = acmeRequests rp"
      using prox nossl by (simp_all add: rp1)
    from True table frame rest show ?thesis by blast
  qed
qed

text \<open>
  A later call with other options: the route's options stay those of its creation,
  and the new target carries the flag the later options ask for.
\<close>

theorem register_existing_route_appends_witness:
  "register noParse (proxyWith 0 [targetOf backendA]) (UrlObject exampleSrc) (UrlObject backendB)
       (Some pickyOpts)
     = Inr (emptyProxy\<lparr>routing := [''example.com'' \<mapsto>
              [routeWith 0 [targetOf backendA, (targetOf backendB)\<lparr>useTargetHostHeader := True\<rparr>]]]\<rparr>, True)
   \<and> opts (bucketOf (emptyProxy\<lparr>routing := [''example.com'' \<mapsto>
              [routeWith 0 [targetOf backendA, (targetOf backendB)\<lparr>useTargetHostHeader := True\<rparr>]]]\<rparr>)
            ''example.com'' ! 0) = Some no_opts"
proof -
  let ?rp = "proxyWith 0 [targetOf backendA]"
  let ?rp1 = "emptyProxy\<lparr>routing := [''example.com'' \<mapsto>
              [routeWith 0 [targetOf backendA, (targetOf backendB)\<lparr>useTargetHostHeader := True\<rparr>]]]\<rparr>"
  have worker: "\<not> clusterMaster ?rp" by (simp add: proxyWith_def emptyProxy_def)
  have src: "prepareUrl noParse (UrlObject exampleSrc) = Inr exampleSrc"
    by (simp add: prepareUrl_def)
  have tgt: "prepareUrl noParse (UrlObject backendB) = Inr backendB"
    by (simp add: prepareUrl_def)
  have bucket: "routing ?rp (hostname exampleSrc) = Some [routeWith 0 [targetOf backendA]]"
    by (simp add: proxyWith_def emptyProxy_def exampleSrc_def)
  have found: "0 < length [routeWith 0 [targetOf backendA]]" by simp
  have same_path: "path ([routeWith 0 [targetOf backendA]] ! 0)
                     = (if pathname exampleSrc = [] then ''/'' else pathname exampleSrc)"
    by (simp add: exampleSrc_def routeWith_def)
  have first: "\<forall>j < (0::nat). path ([routeWith 0 [targetOf backendA]] ! j)
                     \<noteq> (if pathname exampleSrc = [] then ''/'' else pathname exampleSrc)"
    by simp
  have reg: "register noParse ?rp (UrlObject exampleSrc) (UrlObject backendB) (Some pickyOpts)
               = Inr (?rp1, True)"
    by (simp add: register_def proxyWith_def emptyProxy_def truthy_def prepareUrl_def
        buildTarget_def registerCerts_def exampleSrc_def backendA_def backendB_def no_opts_def
        pickyOpts_def pathnameOrRoot_def routeWith_def targetOf_def Let_def)
  have "opts (bucketOf ?rp1 (hostname exampleSrc) ! 0) = opts ([routeWith 0 [targetOf backendA]] ! 0)"
    using register_existing_route_appends [OF worker src tgt bucket found same_path first reg]
    by blast
  then show ?thesis using reg by (simp add: exampleSrc_def routeWith_def)
qed

text \<open>
  The claim as stated fails in its last clause: the options of the later call are not
  ignored for the route.  The same call with and without options leaves different
  targets in the route's \<open>urls\<close>, and with an \<open>ssl\<close> option it also writes the
  certificate store.
\<close>

theorem register_later_options_counterexample:
  "register noParse tlsProxy (UrlObject exampleSrc) (UrlObject backendB) None
     = Inr (tlsProxy\<lparr>routing := [''example.com'' \<mapsto>
              [routeWith 0 [targetOf backendA, targetOf backendB]]]\<rparr>, True)
   \<and> register noParse tlsProxy (UrlObject exampleSrc) (UrlObject backendB) (Some tlsOpts)
     = Inr (tlsProxy\<lparr>routing := [''example.com'' \<mapsto>
              [routeWith 0 [targetOf backendA,
                            (targetOf backendB)\<lparr>sslRedirect := True, useTargetHostHeader := True\<rparr>]]],
                      certs := Some [''example.com'' \<mapsto> None]\<rparr>, True)
   \<and> routeWith 0 [targetOf backendA,
                    (targetOf backendB)\<lparr>sslRedirect := True, useTargetHostHeader := True\<rparr>]
       \<noteq> routeWith 0 [targetOf backendA, targetOf backendB]"
  by (simp add: register_def tlsProxy_def tlsOpts_def proxyWith_def emptyProxy_def truthy_def
      prepareUrl_def buildTarget_def registerCerts_def exampleSrc_def backendA_def backendB_def
      no_opts_def pathnameOrRoot_def routeWith_def targetOf_def Let_def)

section \<open>Properties of the resolver pipeline\<close>

lemma uniqInto_distinct: "distinct seen \<Longrightarrow> distinct (uniqInto seen xs)"
  by (induction xs arbitrary: seen) auto

lemma uniqInto_set: "set (uniqInto seen xs) = set seen \<union> set xs"
  by (induction xs arbitrary: seen) auto

lemma uniq_distinct: "distinct (uniq xs)"
  by (simp add: uniq_def uniqInto_distinct)

lemma uniq_set: "set (uniq xs) = set xs"
  by (simp add: uniq_def uniqInto_set)

lemma addResolverLoop_ok:
  "addResolverLoop prio rs args = (prio1, rs1, None) \<Longrightarrow>
     rs1 = rs @ fnsOf args \<and> NotAFunction \<notin> set args"
  by (induction prio rs args rule: addResolverLoop.induct) auto

text \<open>
  Claim C5, as amended.  After every \<open>addResolver\<close> call that returns normally on an
  instance that keeps a pipeline, the pipeline has no duplicates, holds the resolvers it
  held before together with the new ones, and is in descending order of priority (the
  sort key read from the last element to the first is ascending); among resolvers of
  equal priority the order is the reverse of the order they have in the de-duplicated
  list made of the previous pipeline followed by the new resolvers.
\<close>

theorem addResolver_order:
  assumes worker: "\<not> clusterMaster rp"
      and call: "addResolver prio rp args = (prio1, rp1, None)"
  shows "distinct (resolvers rp1)
       \<and> set (resolvers rp1) = set (resolvers rp) \<union> set (fnsOf args)
       \<and> sorted (rev (map (priorityKey prio1) (resolvers rp1)))
       \<and> (\<forall>k. filter (\<lambda>f. priorityKey prio1 f = k) (resolvers rp1) =
                rev (filter (\<lambda>f. priorityKey prio1 f = k) (uniq (resolvers rp @ fnsOf args))))"
proof -
  obtain p2 rs2 e2 where loop: "addResolverLoop prio (resolvers rp) args = (p2, rs2, e2)"
    by (cases "addResolverLoop prio (resolvers rp) args") auto
  with call worker have e2: "e2 = None" and p2: "p2 = prio1"
    by (auto simp: addResolver_def split: option.splits)
  from loop e2 have rs2: "rs2 = resolvers rp @ fnsOf args"
    using addResolverLoop_ok by blast
  let ?key = "priorityKey prio1"
  let ?u = "uniq (resolvers rp @ fnsOf args)"
  have res: "resolvers rp1 = rev (sort_key ?key ?u)"
    using call worker loop e2 p2 rs2 by (auto simp: addResolver_def)
  have d: "distinct (resolvers rp1)"
    by (simp add: res uniq_distinct)
  have s: "set (resolvers rp1) = set (resolvers rp) \<union> set (fnsOf args)"
    by (simp add: res uniq_set)
  have o: "sorted (rev (map ?key (resolvers rp1)))"
    by (simp add: res rev_map [symmetric])
  have t: "\<forall>k. filter (\<lambda>f. ?key f = k) (resolvers rp1) = rev (filter (\<lambda>f. ?key f = k) ?u)"
    by (simp add: res rev_filter [symmetric] sort_key_stable)
  from d s o t show ?thesis by blast
qed

text \<open>Two resolvers are added to the initial pipeline, one of them with priority 5.\<close>

theorem addResolver_order_witness:
  "addResolver [0 \<mapsto> 0, 2 \<mapsto> 5] emptyProxy [Fn 1, Fn 2]
     = ([0 \<mapsto> 0, 2 \<mapsto> 5, 1 \<mapsto> 0], emptyProxy\<lparr>resolvers := [2, 1, 0]\<rparr>, None)
   \<and> distinct [2, 1, 0 :: nat]
   \<and> sorted (rev (map (priorityKey [0 \<mapsto> 0, 2 \<mapsto> 5, 1 \<mapsto> 0]) [2, 1, 0]))
   \<and> filter (\<lambda>f. priorityKey [0 \<mapsto> 0, 2 \<mapsto> 5, 1 \<mapsto> 0] f = (False, 0)) [2, 1, 0]
       = rev (filter (\<lambda>f. priorityKey [0 \<mapsto> 0, 2 \<mapsto> 5, 1 \<mapsto> 0] f = (False, 0)) (uniq ([0] @ [1, 2])))"
proof -
  have worker: "\<not> clusterMaster emptyProxy" by (simp add: emptyProxy_def)
  have call: "addResolver [0 \<mapsto> 0, 2 \<mapsto> 5] emptyProxy [Fn 1, Fn 2]
     = ([0 \<mapsto> 0, 2 \<mapsto> 5, 1 \<mapsto> 0], emptyProxy\<lparr>resolvers := [2, 1, 0]\<rparr>, None)"
    by (simp add: addResolver_def emptyProxy_def uniq_def priorityKey_def less_eq_prod_def)
  from addResolver_order [OF worker call] call show ?thesis
    by (simp add: emptyProxy_def)
qed

text \<open>
  The claim as stated fails: a resolver added with the priority of the built-in
  resolver comes before it, while insertion order would put it after.
\<close>

theorem addResolver_ties_counterexample:
  "addResolver [0 \<mapsto> 0] emptyProxy [Fn 1]
     = ([0 \<mapsto> 0, 1 \<mapsto> 0], emptyProxy\<lparr>resolvers := [1, 0]\<rparr>, None)
   \<and> stableDescending [0 \<mapsto> 0, 1 \<mapsto> 0] (resolvers emptyProxy @ [1]) = [0, 1]
   \<and> resolvers (emptyProxy\<lparr>resolvers := [1, 0]\<rparr>)
       \<noteq> stableDescending [0 \<mapsto> 0, 1 \<mapsto> 0] (resolvers emptyProxy @ [1])"
  by (simp add: addResolver_def emptyProxy_def uniq_def priorityKey_def less_eq_prod_def
      stableDescending_def)

section \<open>Properties of target selection and URL rewriting\<close>

text \<open>
  Claim C2, as amended.  For every matched route and chosen target, \<open>_getRouteTarget\<close>
  rewrites the request URL as follows.  A route path longer than one character is cut
  off the front of the incoming URL.  Then, if the target has a non-empty pathname:
  when nothing remains of the URL, the URL becomes the target pathname as it is; when
  the remainder begins with a question mark, the target pathname is put directly in
  front of it; otherwise the target pathname and the remainder are joined with POSIX
  path join.  If the target has no pathname the remainder stands.  This is the request
  an \<open>onRequest\<close> hook receives, and the request the call leaves when the route has
  no such hook.
\<close>

theorem getRouteTarget_rewrites_url:
  assumes sel: "pickTarget route0 = Some t"
  shows "url (fst (selectAndRewrite route0 req)) =
           (let rest = (if 1 < length (path route0)
                        then drop (length (path route0)) (url req) else url req)
            in if pathname t = [] then rest
               else if rest = [] then pathname t
               else if hd rest = CHR ''?'' then pathname t @ rest
               else posix_join [pathname t, rest])
       \<and> ((case opts route0 of None \<Rightarrow> True | Some o1 \<Rightarrow> onRequest o1 = None) \<longrightarrow>
            fst (getRouteTargetThen (Some route0) req res) = fst (selectAndRewrite route0 req))"
proof -
  have rewritten: "url (fst (selectAndRewrite route0 req)) =
           (let rest = (if 1 < length (path route0)
                        then drop (length (path route0)) (url req) else url req)
            in if pathname t = [] then rest
               else if rest = [] then pathname t
               else if hd rest = CHR ''?'' then pathname t @ rest
               else posix_join [pathname t, rest])"
    using sel
    by (simp add: selectAndRewrite_def stripPrefix_def joinTargetPath_def setTargetHost_def Let_def)
  have passed: "(case opts route0 of None \<Rightarrow> True | Some o1 \<Rightarrow> onRequest o1 = None) \<longrightarrow>
            fst (getRouteTargetThen (Some route0) req res) = fst (selectAndRewrite route0 req)"
    using sel
    by (auto simp: getRouteTargetThen_def selectAndRewrite_def Let_def split: option.splits)
  from rewritten passed show ?thesis by blast
qed

text \<open>
  The two seed scenarios: \<open>/path?a=b\<close> becomes \<open>/foo/bar/qux?a=b\<close> and
  \<open>/path/a/b/c\<close> becomes \<open>/foo/bar/qux/a/b/c\<close>.
\<close>

theorem getRouteTarget_rewrites_url_witness:
  "pickTarget (pathRoute ''/foo/bar/qux'') = Some ((targetOf backendA)\<lparr>pathname := ''/foo/bar/qux''\<rparr>)
   \<and> url (fst (getRouteTargetThen (Some (pathRoute ''/foo/bar/qux'')) (requestFor ''/path?a=b'') None))
       = ''/foo/bar/qux?a=b''
   \<and> url (fst (getRouteTargetThen (Some (pathRoute ''/foo/bar/qux'')) (requestFor ''/path/a/b/c'') None))
       = ''/foo/bar/qux/a/b/c''"
proof -
  have sel: "pickTarget (pathRoute ''/foo/bar/qux'') = Some ((targetOf backendA)\<lparr>pathname := ''/foo/bar/qux''\<rparr>)"
    by (simp add: pickTarget_def pathRoute_def)
  have join: "posix_join [''/foo/bar/qux'', ''/a/b/c''] = ''/foo/bar/qux/a/b/c''"
    by (simp add: posix_join_def posix_normalize_def)
  have nohook: "(case opts (pathRoute ''/foo/bar/qux'') of None \<Rightarrow> True | Some o1 \<Rightarrow> onRequest o1 = None)"
    by (simp add: pathRoute_def no_opts_def)
  from getRouteTarget_rewrites_url [OF sel, of "requestFor ''/path?a=b''" None]
       getRouteTarget_rewrites_url [OF sel, of "requestFor ''/path/a/b/c''" None] sel join nohook
  show ?thesis by (simp add: pathRoute_def requestFor_def)
qed

text \<open>
  The claim as stated fails where nothing remains of the URL: the code takes the target
  pathname unchanged, while POSIX join would normalise it.
\<close>

theorem rewrite_empty_rest_counterexample:
  "url (fst (selectAndRewrite (pathRoute ''/a//b'') (requestFor ''/path''))) = ''/a//b''
   \<and> rewriteSpec ''/path'' ''/a//b'' ''/path'' = ''/a/b''"
  by (simp add: selectAndRewrite_def stripPrefix_def joinTargetPath_def setTargetHost_def
      pickTarget_def pathRoute_def requestFor_def targetOf_def backendA_def rewriteSpec_def
      posix_join_def posix_normalize_def Let_def)

text \<open>
  A selection on a route whose \<open>rr\<close> is inside the target list returns the target at
  \<open>rr\<close> and moves \<open>rr\<close> on by one modulo the length of the list, which is again
  inside the list.
\<close>

lemma selection_in_range:
  assumes "rr route0 = Some j" "j < length (urls route0)"
  shows "pickTarget route0 = Some (urls route0 ! j)
       \<and> nextRr route0 = Some ((j + 1) mod length (urls route0))
       \<and> (j + 1) mod length (urls route0) < length (urls route0)"
  using assms by (auto simp: pickTarget_def nextRr_def)

text \<open>
  A selection and a \<open>register\<close> call keep every \<open>rr\<close> inside its target list.
\<close>

lemma selection_keeps_rr: "rrInRange r \<Longrightarrow> rrInRange (r\<lparr>rr := nextRr r\<rparr>)"
  by (auto simp: rrInRange_def nextRr_def split: option.splits)

lemma register_keeps_rr:
  assumes inv: "\<forall>h. \<forall>r \<in> set (bucketOf rp h). rrInRange r"
      and reg: "register parseUrl rp src0 t0 opts0 = Inr (rp1, flag)"
  shows "\<forall>h. \<forall>r \<in> set (bucketOf rp1 h). rrInRange r"
proof (cases "clusterMaster rp")
  case True
  with reg inv show ?thesis by (simp add: register_def)
next
  case worker: False
  from reg worker have truthy: "truthy src0" "truthy t0"
    by (auto simp: register_def split: if_splits)
  from reg worker truthy obtain src t rpc where
        src: "prepareUrl parseUrl src0 = Inr src"
    and t: "buildTarget parseUrl t0 opts0 = Inr t"
    and rc: "registerCerts rp src opts0 = Inr (rpc, flag)"
    by (auto simp: register_def Let_def split: sum.splits bool.splits prod.splits if_splits)
  have rpc: "routing rpc = routing rp" "\<not> flag \<longrightarrow> rpc = rp"
    using registerCerts_routing [OF rc] by blast+
  show ?thesis
  proof (cases flag)
    case False
    with reg worker truthy src t rc rpc inv show ?thesis
      by (simp add: register_def)
  next
    case True
    let ?h = "hostname src"
    let ?P = "\<lambda>r. path r = pathnameOrRoot src"
    let ?old = "bucketOf rp ?h"
    let ?i = "findIndex ?P ?old"
    have old: "(case routing rpc ?h of None \<Rightarrow> [] | Some b \<Rightarrow> b) = ?old"
      by (simp add: bucketOf_def rpc)
    from inv have ok: "\<forall>r \<in> set ?old. rrInRange r" by blast
    have others: "\<forall>h. h \<noteq> ?h \<longrightarrow> bucketOf rp1 h = bucketOf rp h"
      using reg worker truthy src t rc True old
      by (auto simp: register_def Let_def bucketOf_def rpc split: if_splits prod.splits)
    have "\<forall>r \<in> set (bucketOf rp1 ?h). rrInRange r"
    proof (cases "?i < length ?old")
      case found: True
      let ?upd = "?old[?i := (?old ! ?i)\<lparr>urls := urls (?old ! ?i) @ [t]\<rparr>]"
      have "bucketOf rp1 ?h = ?upd"
        using reg worker truthy src t rc True old found
        by (auto simp: register_def Let_def bucketOf_def rpc)
      moreover have "rrInRange ((?old ! ?i)\<lparr>urls := urls (?old ! ?i) @ [t]\<rparr>)"
      proof -
        have "?old ! ?i \<in> set ?old" using found by simp
        with ok have "rrInRange (?old ! ?i)" by blast
        then show ?thesis by (auto simp: rrInRange_def split: option.splits)
      qed
      ultimately show ?thesis
        using ok by (auto dest!: set_update_subset_insert [THEN subsetD])
    next
      case fresh: False
      obtain handle proxies1 where gp: "getProxy rpc src t opts0 = (handle, proxies1)"
        by (cases "getProxy rpc src t opts0")
      let ?new = "\<lparr> path = pathnameOrRoot src, rr = Some 0, urls = [t],
                      opts = Some (case opts0 of None \<Rightarrow> no_opts | Some given \<Rightarrow> given),
                      proxy = Some handle, isResolved = False \<rparr>"
      have "bucketOf rp1 ?h = sortRoutes (?old @ [?new])"
        using reg worker truthy src t rc True old fresh gp
        by (auto simp: register_def Let_def bucketOf_def rpc)
      moreover have "set (sortRoutes (?old @ [?new])) = insert ?new (set ?old)"
        by (simp add: sortRoutes_def)
      moreover have "rrInRange ?new" by (simp add: rrInRange_def)
      ultimately show ?thesis using ok by simp
    qed
    with others inv show ?thesis by metis
  qed
qed

text \<open>
  Claim C3 says that for every route with a non-empty target list \<open>rr\<close> is always
  inside the list, and that each selection returns the target at \<open>rr\<close> and moves
  \<open>rr\<close> on by one modulo the length of the list.  The code breaks this after an
  \<open>unregister\<close>.  Two targets are registered for one route, one request is served
  (\<open>rr\<close> moves to 1), and the second target is unregistered: the route is left with
  one target and \<open>rr = 1\<close>, outside the list.  The next request reads \<open>urls[1]\<close>,
  gets \<open>undefined\<close>, and fails with a type error.
\<close>

theorem rr_out_of_range_after_unregister:
  "register noParse emptyProxy (UrlObject exampleSrc) (UrlObject backendA) None
     = Inr (proxyWith 0 [targetOf backendA], True)
   \<and> register noParse (proxyWith 0 [targetOf backendA]) (UrlObject exampleSrc) (UrlObject backendB) None
     = Inr (proxyWith 0 [targetOf backendA, targetOf backendB], True)
   \<and> getRouteTarget noParse noHash noResolvers freshModule
        (proxyWith 0 [targetOf backendA, targetOf backendB]) (Some ''example.com'') (requestFor ''/'') None
     = ((freshModule, proxyWith 1 [targetOf backendA, targetOf backendB]), requestFor ''/'', None,
        Inr (Some (routeWith 1 [targetOf backendA, targetOf backendB]), Some (JTarget (targetOf backendA))))
   \<and> unregister noParse (proxyWith 1 [targetOf backendA, targetOf backendB])
        (UrlObject exampleSrc) (Some (UrlObject backendB))
     = Inr (proxyWith 1 [targetOf backendA])
   \<and> rr (routeWith 1 [targetOf backendA]) = Some (length (urls (routeWith 1 [targetOf backendA])))
   \<and> getRouteTarget noParse noHash noResolvers freshModule
        (proxyWith 1 [targetOf backendA]) (Some ''example.com'') (requestFor ''/'') None
     = ((freshModule, proxyWith 0 [targetOf backendA]), requestFor ''/'', None,
        Inl (TypeError ''Cannot read property pathname of undefined''))"
  by (simp add: register_def unregister_def dropCerts_def proxyWith_def emptyProxy_def truthy_def
      prepareUrl_def buildTarget_def registerCerts_def exampleSrc_def backendA_def backendB_def
      no_opts_def pathnameOrRoot_def getProxy_def sortRoutes_def routeWith_def targetOf_def
      getRouteTarget_def resolve_def callResolver_def defaultResolver_def toLowerCase_def
      buildRoute_def falsyReply_def freshModule_def getRouteTargetThen_def selectAndRewrite_def stripPrefix_def
      nextRr_def pickTarget_def joinTargetPath_def setTargetHost_def storeRoute_def requestFor_def
      startsWith_def posix_join_def posix_normalize_def Let_def)

section \<open>Properties of the onRequest hook\<close>

text \<open>
  Claim C8, as amended.  For every request on a route with an \<open>onRequest\<close> hook, the
  hook is called with the request as rewritten, the response, and the target selected
  round-robin, after \<open>rr\<close> has moved on.  The effective target is the selected target if
  the hook returns \<open>undefined\<close> and the value the hook returns otherwise.  If the
  effective target is \<open>false\<close> the request is neither forwarded nor redirected.
  Otherwise the HTTPS listener hands the request to the route's forwarder with the
  effective target, and the HTTP listener does the same unless the HTTPS-redirect test
  holds for the effective target, in which case it answers with the redirect.
\<close>

theorem onRequest_hook_outcome:
  assumes o1: "opts route0 = Some o1"
      and hook: "onRequest o1 = Some hook"
      and sel: "selectAndRewrite route0 req = (req1, route1, Inr t)"
      and ret: "hook req1 (Some res) t = Inr (ret, req2, change)"
      and handle: "proxy route0 = Some handle"
  shows "let eff = (case ret of None \<Rightarrow> JTarget t | Some x \<Rightarrow> x) in
           pickTarget route0 = Some t
         \<and> route1 = route0\<lparr>rr := nextRr route0\<rparr>
         \<and> req1 = setTargetHost t (joinTargetPath t (stripPrefix route0 req))
         \<and> getRouteTargetThen (Some route0) req (Some res)
             = (req2, Some (change res), Some route1, Inr (Some route1, Some eff))
         \<and> httpsRequestThen m rp g src req2 (change res) (Some route1, Some eff)
             = (if eff = JFalse then Inr Skipped
                else Inr (Forwarded handle (Some eff) g (httpProxy o1)))
         \<and> httpRequestThen m rp g src req2 (change res) (Some route1, Some eff)
             = (if eff = JFalse then Inr Skipped
                else case shouldRedirectToHttps rp src (Some eff) of
                       Inl e \<Rightarrow> Inl e
                     | Inr True \<Rightarrow>
                         (case redirectToHttps rp req2 (change res) of
                            Inl e \<Rightarrow> Inl e
                          | Inr (rq, rs) \<Rightarrow> Inr (Redirected rq rs))
                     | Inr False \<Rightarrow> Inr (Forwarded handle (Some eff) g (httpProxy o1)))"
proof -
  from sel have picked: "pickTarget route0 = Some t"
    and r1: "route1 = route0\<lparr>rr := nextRr route0\<rparr>"
    and q1: "req1 = setTargetHost t (joinTargetPath t (stripPrefix route0 req))"
    by (auto simp: selectAndRewrite_def Let_def split: option.splits)
  from r1 o1 handle have o1': "opts route1 = Some o1" and h1: "proxy route1 = Some handle"
    by simp_all
  have grt: "getRouteTargetThen (Some route0) req (Some res)
      = (req2, Some (change res), Some route1,
         Inr (Some route1, Some (case ret of None \<Rightarrow> JTarget t | Some x \<Rightarrow> x)))"
    using sel o1' hook ret by (simp add: getRouteTargetThen_def split: option.splits)
  have fw: "\<And>tgt. forward g route1 tgt = Inr (Forwarded handle tgt g (httpProxy o1))"
    using o1' h1 by (simp add: forward_def)
  show ?thesis
    using picked r1 q1 grt fw
    by (simp add: Let_def httpsRequestThen_def httpRequestThen_def split: sum.splits bool.splits)
qed

text \<open>The skip scenario: the hook answers 500 itself and returns \<open>false\<close>.\<close>

theorem onRequest_hook_outcome_witness:
  "getRouteTargetThen (Some (hookRoute skipHook 0 [targetOf backendA])) (requestFor ''/'') (Some freshResponse)
     = (requestFor ''/'',
        Some (freshResponse\<lparr>statusCode := Some 500, headersSent := True,
                             written := ''skip forward'', ended := True\<rparr>),
        Some (hookRoute skipHook 0 [targetOf backendA]),
        Inr (Some (hookRoute skipHook 0 [targetOf backendA]), Some JFalse))
   \<and> httpRequestThen freshModule emptyProxy [] (Some ''example.com'') (requestFor ''/'')
        (freshResponse\<lparr>statusCode := Some 500, headersSent := True,
                        written := ''skip forward'', ended := True\<rparr>)
        (Some (hookRoute skipHook 0 [targetOf backendA]), Some JFalse)
     = Inr Skipped"
proof -
  let ?route = "hookRoute skipHook 0 [targetOf backendA]"
  let ?change = "\<lambda>r. endResponse (Some ''skip forward'') (r\<lparr>statusCode := Some 500\<rparr>)"
  have o1: "opts ?route = Some (no_opts\<lparr>onRequest := Some skipHook\<rparr>)"
    by (simp add: hookRoute_def)
  have hook: "onRequest (no_opts\<lparr>onRequest := Some skipHook\<rparr>) = Some skipHook"
    by simp
  have sel: "selectAndRewrite ?route (requestFor ''/'') = (requestFor ''/'', ?route, Inr (targetOf backendA))"
    by (simp add: selectAndRewrite_def stripPrefix_def joinTargetPath_def setTargetHost_def
        pickTarget_def nextRr_def hookRoute_def requestFor_def targetOf_def backendA_def
        posix_join_def posix_normalize_def Let_def)
  have ret: "skipHook (requestFor ''/'') (Some freshResponse) (targetOf backendA)
               = Inr (Some JFalse, requestFor ''/'', ?change)"
    by (simp add: skipHook_def)
  have handle: "proxy ?route = Some DefaultProxy"
    by (simp add: hookRoute_def)
  have changed: "?change freshResponse
      = freshResponse\<lparr>statusCode := Some 500, headersSent := True,
                       written := ''skip forward'', ended := True\<rparr>"
    by (simp add: endResponse_def freshResponse_def)
  from onRequest_hook_outcome [OF o1 hook sel ret handle,
         of freshModule emptyProxy "[]" "Some ''example.com''"]
  show ?thesis by (simp add: Let_def changed)
qed

text \<open>
  The claim as stated fails on the HTTP listener: the hook returns \<open>undefined\<close>, and
  the request is redirected to HTTPS instead of being forwarded to the selected target.
\<close>

theorem onRequest_redirect_counterexample:
  "getRouteTargetThen (Some (hookRoute passHook 0 [sslTarget])) (requestFor ''/'') (Some freshResponse)
     = (requestFor ''/'', Some freshResponse, Some (hookRoute passHook 0 [sslTarget]),
        Inr (Some (hookRoute passHook 0 [sslTarget]), Some (JTarget sslTarget)))
   \<and> httpRequestThen freshModule sslProxy [] (Some ''example.com'') (requestFor ''/'') freshResponse
        (Some (hookRoute passHook 0 [sslTarget]), Some (JTarget sslTarget))
     = Inr (Redirected (requestFor ''/'')
              (freshResponse\<lparr>statusCode := Some 302, headersSent := True,
                              location := Some ''https://example.com:443/'', ended := True\<rparr>))"
  by (simp add: getRouteTargetThen_def selectAndRewrite_def stripPrefix_def joinTargetPath_def
      setTargetHost_def pickTarget_def nextRr_def hookRoute_def requestFor_def targetOf_def
      backendA_def sslTarget_def passHook_def no_opts_def freshResponse_def
      httpRequestThen_def shouldRedirectToHttps_def redirectToHttps_def sslProxy_def
      emptyProxy_def writeHead_def endResponse_def posix_join_def posix_normalize_def Let_def)

section \<open>Properties of resolution\<close>

lemma resolveScan_checked:
  "resolveScan parseUrl hashOf url0 cache replies = (Some (place, r), cache1) \<Longrightarrow>
     isResolved r \<Longrightarrow> path r = ''/'' \<or> startsWith url0 (path r)"
proof (induction replies arbitrary: cache)
  case Nil
  then show ?case by simp
next
  case (Cons a replies)
  obtain known reply where a: "a = (known, reply)" by (cases a)
  show ?case
  proof (cases "falsyReply reply")
    case True
    with Cons a show ?thesis by simp
  next
    case truthy: False
    show ?thesis
    proof (cases "buildRoute parseUrl hashOf cache reply")
      case (Inl e)
      with Cons.prems a truthy show ?thesis by simp
    next
      case (Inr res)
      obtain found c1 where res: "res = (found, c1)" by (cases res)
      show ?thesis
      proof (cases found)
        case None
        with Cons Inr res a truthy show ?thesis by simp
      next
        case (Some br)
        obtain built r0 where br: "br = (built, r0)" by (cases br)
        show ?thesis
        proof (cases "\<not> isResolved r0 \<or> path r0 = ''/'' \<or> startsWith url0 (path r0)")
          case True
          with Cons.prems Inr res a Some br truthy show ?thesis by auto
        next
          case False
          with Cons Inr res a Some br truthy show ?thesis by simp
        qed
      qed
    qed
  qed
qed

text \<open>
  Claim C6.  A route that \<open>resolve\<close> returns and that is marked \<open>isResolved\<close> has the
  path \<open>/\<close> or a path that passes the prefix test against the request URL.  In the
  scan, a result coerced into a route marked \<open>isResolved\<close> whose path is not \<open>/\<close> and
  fails the prefix test is discarded and the scan goes on with the next result; every
  other coerced route, a route not marked \<open>isResolved\<close> in particular, is returned at
  once, without the test deciding.
\<close>

theorem resolve_checks_resolved_routes:
  "(resolve parseUrl hashOf fns m rp host0 url0 req = (Some (place, r), m1) \<and> isResolved r
      \<longrightarrow> path r = ''/'' \<or> startsWith url0 (path r))
   \<and> (\<not> falsyReply reply \<and> buildRoute parseUrl hashOf cache reply = Inr (Some (built, r0), cache1) \<longrightarrow>
        resolveScan parseUrl hashOf url0 cache ((known, reply) # rest) =
          (if isResolved r0 \<and> path r0 \<noteq> ''/'' \<and> \<not> startsWith url0 (path r0)
           then resolveScan parseUrl hashOf url0 cache1 rest
           else (Some (case known of None \<Rightarrow> built | Some k \<Rightarrow> k, r0), cache1)))"
proof -
  have returned: "resolve parseUrl hashOf fns m rp host0 url0 req = (Some (place, r), m1) \<and> isResolved r
      \<longrightarrow> path r = ''/'' \<or> startsWith url0 (path r)"
  proof
    assume h: "resolve parseUrl hashOf fns m rp host0 url0 req = (Some (place, r), m1) \<and> isResolved r"
    from h obtain settled c1 where
      "resolveScan parseUrl hashOf url0 (routeCache m) settled = (Some (place, r), c1)"
      by (auto simp: resolve_def Let_def split: option.splits prod.splits)
    with h show "path r = ''/'' \<or> startsWith url0 (path r)"
      using resolveScan_checked by blast
  qed
  have step: "\<not> falsyReply reply \<and> buildRoute parseUrl hashOf cache reply = Inr (Some (built, r0), cache1) \<longrightarrow>
        resolveScan parseUrl hashOf url0 cache ((known, reply) # rest) =
          (if isResolved r0 \<and> path r0 \<noteq> ''/'' \<and> \<not> startsWith url0 (path r0)
           then resolveScan parseUrl hashOf url0 cache1 rest
           else (Some (case known of None \<Rightarrow> built | Some k \<Rightarrow> k, r0), cache1))"
    by auto
  from returned step show ?thesis by blast
qed

text \<open>
  A resolver's route for \<open>/api\<close> is returned for \<open>/api/x\<close> and discarded for
  \<open>/other\<close>, where the route of the routing table is returned instead.
\<close>

theorem resolve_checks_resolved_routes_witness:
  "resolve noParse noHash apiResolver freshModule apiProxy (Some ''example.com'') ''/api/x''
       (requestFor ''/api/x'')
     = (Some (FromCache [], apiRoute), freshModule\<lparr>routeCache := ['''' \<mapsto> apiRoute]\<rparr>)
   \<and> isResolved apiRoute
   \<and> startsWith ''/api/x'' (path apiRoute)
   \<and> buildRoute noParse noHash Map.empty (RDescriptor apiDescriptor)
     = Inr (Some (FromCache [], apiRoute), ['''' \<mapsto> apiRoute])
   \<and> resolveScan noParse noHash ''/other'' Map.empty
        [(None, RDescriptor apiDescriptor),
         (Some (FromTable ''example.com'' 0), RRoute (routeWith 0 [targetOf backendA]))]
     = (Some (FromTable ''example.com'' 0, routeWith 0 [targetOf backendA]), ['''' \<mapsto> apiRoute])"
proof -
  have found: "resolve noParse noHash apiResolver freshModule apiProxy (Some ''example.com'') ''/api/x''
       (requestFor ''/api/x'')
     = (Some (FromCache [], apiRoute), freshModule\<lparr>routeCache := ['''' \<mapsto> apiRoute]\<rparr>)"
    by (simp add: resolve_def callResolver_def defaultResolver_def apiResolver_def apiProxy_def
        proxyWith_def emptyProxy_def toLowerCase_def buildRoute_def buildTarget_def
        prepareUrl_def apiDescriptor_def apiRoute_def noHash_def freshModule_def routeWith_def
        targetOf_def backendB_def no_opts_def startsWith_def falsyReply_def Let_def)
  have marked: "isResolved apiRoute" by (simp add: apiRoute_def)
  have built: "buildRoute noParse noHash Map.empty (RDescriptor apiDescriptor)
     = Inr (Some (FromCache [], apiRoute), ['''' \<mapsto> apiRoute])"
    by (simp add: buildRoute_def buildTarget_def prepareUrl_def apiDescriptor_def apiRoute_def
        noHash_def targetOf_def backendB_def no_opts_def Let_def)
  have other: "path apiRoute \<noteq> ''/'' \<and> \<not> startsWith ''/other'' (path apiRoute)"
    by (simp add: apiRoute_def startsWith_def)
  have truthy: "\<not> falsyReply (RDescriptor apiDescriptor)"
    by (simp add: falsyReply_def)
  have table: "resolveScan noParse noHash ''/other'' ['''' \<mapsto> apiRoute]
        [(Some (FromTable ''example.com'' 0), RRoute (routeWith 0 [targetOf backendA]))]
     = (Some (FromTable ''example.com'' 0, routeWith 0 [targetOf backendA]), ['''' \<mapsto> apiRoute])"
    by (simp add: buildRoute_def routeWith_def falsyReply_def)
  from resolve_checks_resolved_routes
         [where parseUrl = noParse and hashOf = noHash and fns = apiResolver and m = freshModule
            and rp = apiProxy and ?host0.0 = "Some ''example.com''" and ?url0.0 = "''/api/x''"
            and req = "requestFor ''/api/x''" and place = "FromCache []" and r = apiRoute
            and ?m1.0 = "freshModule\<lparr>routeCache := ['''' \<mapsto> apiRoute]\<rparr>"]
       found marked
  have prefix_ok: "startsWith ''/api/x'' (path apiRoute)"
    by (simp add: apiRoute_def)
  from resolve_checks_resolved_routes
         [where parseUrl = noParse and hashOf = noHash and ?url0.0 = "''/other''"
            and cache = Map.empty and reply = "RDescriptor apiDescriptor"
            and built = "FromCache []" and ?r0.0 = apiRoute and ?cache1.0 = "['''' \<mapsto> apiRoute]"
            and known = None
            and rest = "[(Some (FromTable ''example.com'' 0), RRoute (routeWith 0 [targetOf backendA]))]"]
       built marked other table truthy
  have discarded: "resolveScan noParse noHash ''/other'' Map.empty
        [(None, RDescriptor apiDescriptor),
         (Some (FromTable ''example.com'' 0), RRoute (routeWith 0 [targetOf backendA]))]
     = (Some (FromTable ''example.com'' 0, routeWith 0 [targetOf backendA]), ['''' \<mapsto> apiRoute])"
    by simp
  from found marked prefix_ok built discarded show ?thesis by blast
qed

section \<open>Properties of the default error handler\<close>

text \<open>
  Claim C7, as amended.  Take any error handled by the default error handler, except
  an \<open>ECONNREFUSED\<close> error on a response that provides \<open>writeHead\<close> and whose
  headers are already sent.  The handler returns, and: if \<open>err.code\<close> is
  \<open>ECONNREFUSED\<close> and the response object provides \<open>writeHead\<close>, the status is set
  to 502; otherwise, if the headers have not been sent and the response object provides
  \<open>writeHead\<close>, the status is set to 500; in every other case the status is left as
  it was.  In each of these cases the response is ended with the error code as body.
\<close>

theorem handleProxyError_status_and_body:
  assumes guarded: "\<not> (errCode err = Some ''ECONNREFUSED'' \<and> hasWriteHead res \<and> headersSent res)"
  shows "\<exists>res1 logged.
           handleProxyError err req res = Inr (res1, logged)
         \<and> (errCode err = Some ''ECONNREFUSED'' \<and> hasWriteHead res \<longrightarrow> statusCode res1 = Some 502)
         \<and> (errCode err \<noteq> Some ''ECONNREFUSED'' \<and> \<not> headersSent res \<and> hasWriteHead res
              \<longrightarrow> statusCode res1 = Some 500)
         \<and> (errCode err \<noteq> Some ''ECONNREFUSED'' \<and> headersSent res
              \<longrightarrow> statusCode res1 = statusCode res)
         \<and> (\<not> hasWriteHead res \<longrightarrow> statusCode res1 = statusCode res)
         \<and> ended res1
         \<and> written res1 = written res @ (case errCode err of None \<Rightarrow> [] | Some c \<Rightarrow> c)
         \<and> logged = (errMessage err \<noteq> ''socket hang up'')"
proof (cases "errCode err = Some ''ECONNREFUSED''")
  case refused: True
  show ?thesis
  proof (cases "hasWriteHead res")
    case True
    with refused guarded have fresh: "\<not> headersSent res" by simp
    with refused True show ?thesis
      by (simp add: handleProxyError_def writeHead_def endResponse_def)
  next
    case False
    with refused show ?thesis
      by (simp add: handleProxyError_def endResponse_def)
  qed
next
  case other: False
  show ?thesis
  proof (cases "headersSent res")
    case True
    with other show ?thesis
      by (simp add: handleProxyError_def endResponse_def)
  next
    case False
    with other show ?thesis
      by (cases "hasWriteHead res")
         (simp_all add: handleProxyError_def writeHead_def endResponse_def)
  qed
qed

text \<open>The refused connection of the seed scenario: status 502, body \<open>ECONNREFUSED\<close>.\<close>

theorem handleProxyError_status_and_body_witness:
  "\<not> (errCode refused = Some ''ECONNREFUSED'' \<and> hasWriteHead freshResponse \<and> headersSent freshResponse)
   \<and> handleProxyError refused (requestFor ''/'') freshResponse
     = Inr (freshResponse\<lparr>statusCode := Some 502, headersSent := True,
                            written := ''ECONNREFUSED'', ended := True\<rparr>, True)
   \<and> statusCode (freshResponse\<lparr>statusCode := Some 502, headersSent := True,
                        written := ''ECONNREFUSED'', ended := True\<rparr>) = Some 502"
proof -
  let ?out = "freshResponse\<lparr>statusCode := Some 502, headersSent := True,
                        written := ''ECONNREFUSED'', ended := True\<rparr>"
  have guarded: "\<not> (errCode refused = Some ''ECONNREFUSED'' \<and> hasWriteHead freshResponse
                     \<and> headersSent freshResponse)"
    by (simp add: freshResponse_def)
  have handled: "handleProxyError refused (requestFor ''/'') freshResponse = Inr (?out, True)"
    by (simp add: handleProxyError_def refused_def freshResponse_def writeHead_def
        endResponse_def)
  have code: "errCode refused = Some ''ECONNREFUSED'' \<and> hasWriteHead freshResponse"
    by (simp add: refused_def freshResponse_def)
  from handleProxyError_status_and_body [OF guarded, of "requestFor ''/''"] handled code
  have "statusCode ?out = Some 502" by auto
  with guarded handled show ?thesis by simp
qed

text \<open>
  The claim as stated fails for a raw socket, which the handler receives when a
  WebSocket forward fails: the socket has no \<open>writeHead\<close>, so no status is set for
  \<open>ECONNREFUSED\<close>; the error code is written and the socket ended.
\<close>

theorem handleProxyError_socket_counterexample:
  "handleProxyError refused (requestFor ''/'') rawSocket
     = Inr (rawSocket\<lparr>written := ''ECONNREFUSED'', headersSent := True, ended := True\<rparr>, True)
   \<and> statusCode (rawSocket\<lparr>written := ''ECONNREFUSED'', headersSent := True, ended := True\<rparr>) = None"
  by (simp add: handleProxyError_def refused_def rawSocket_def freshResponse_def endResponse_def)

text \<open>
  The case left out above: on a response whose headers are already sent, the
  \<open>ECONNREFUSED\<close> branch calls \<open>writeHead\<close> all the same, which throws; no status
  is set and the response is not ended.
\<close>

lemma handleProxyError_headers_sent_throws:
  "handleProxyError refused (requestFor ''/'') sentResponse
     = Inl (HeadersSentError ''Cannot write headers after they are sent to the client'')"
  by (simp add: handleProxyError_def refused_def sentResponse_def freshResponse_def writeHead_def)

section \<open>Properties of the not-found responder\<close>

text \<open>
  Claim C10.  \<open>notFound(callback)\<close>, called on any instance, stores the callback in
  the module-level responder, and throws when the callback is not a function.
  Afterwards the not-found answers of every instance, on the HTTP path, the HTTPS path
  and the WebSocket upgrade path, are made by the callback.
\<close>

theorem notFound_replaces_shared_responder:
  assumes called: "notFound m rp cb = Inr m1"
  shows "\<exists>f. cb = Function f
           \<and> respondNotFound m1 = f
           \<and> httpRequestThen m1 other g src req res (None, tgt) = Inr (NotFound (f req res))
           \<and> httpsRequestThen m1 other g src req res (None, tgt) = Inr (NotFound (f req res))
           \<and> websocketsUpgradeThen m1 req socket (found, None) = NotFound (f req socket)
           \<and> websocketsUpgradeThen m1 req socket (found, Some JFalse) = NotFound (f req socket)
           \<and> notFound m rp NotFunction = Inl (AssertionError ''notFound callback is not a function'')"
proof (cases cb)
  case NotFunction
  with called show ?thesis by (simp add: notFound_def)
next
  case (Function f)
  with called have m1: "m1 = m\<lparr>respondNotFound := f\<rparr>"
    by (simp add: notFound_def)
  have http: "httpRequestThen m1 other g src req res (None, tgt) = Inr (NotFound (f req res))"
    by (simp add: httpRequestThen_def m1)
  have https: "httpsRequestThen m1 other g src req res (None, tgt) = Inr (NotFound (f req res))"
    by (simp add: httpsRequestThen_def m1)
  have ws: "websocketsUpgradeThen m1 req socket (found, None) = NotFound (f req socket)"
           "websocketsUpgradeThen m1 req socket (found, Some JFalse) = NotFound (f req socket)"
    by (simp_all add: websocketsUpgradeThen_def m1)
  have throws: "notFound m rp NotFunction = Inl (AssertionError ''notFound callback is not a function'')"
    by (simp add: notFound_def)
  from Function m1 http https ws throws show ?thesis by simp
qed

text \<open>A responder set through one instance answers on another.\<close>

theorem notFound_replaces_shared_responder_witness:
  "notFound freshModule emptyProxy (Function teapot) = Inr (freshModule\<lparr>respondNotFound := teapot\<rparr>)
   \<and> httpRequestThen (freshModule\<lparr>respondNotFound := teapot\<rparr>) sslProxy [] (Some ''nowhere'')
        (requestFor ''/'') freshResponse (None, None)
     = Inr (NotFound (freshResponse\<lparr>statusCode := Some 418, headersSent := True,
                                     written := ''no such page'', ended := True\<rparr>))"
proof -
  have called: "notFound freshModule emptyProxy (Function teapot)
                  = Inr (freshModule\<lparr>respondNotFound := teapot\<rparr>)"
    by (simp add: notFound_def)
  from notFound_replaces_shared_responder
         [OF called, of sslProxy "[]" "Some ''nowhere''" "requestFor ''/''" freshResponse None]
  have "httpRequestThen (freshModule\<lparr>respondNotFound := teapot\<rparr>) sslProxy [] (Some ''nowhere'')
          (requestFor ''/'') freshResponse (None, None)
        = Inr (NotFound (teapot (requestFor ''/'') freshResponse))"
    by auto
  with called show ?thesis
    by (simp add: teapot_def endResponse_def freshResponse_def)
qed

end
